theory Spec2Isabelle
  imports Main
begin

section \<open>The Go standard library functions the repository calls\<close>

text \<open>
  Go strings are byte sequences; here they are \<open>string\<close> (a list of \<open>char\<close>). The
  functions of package \<open>strings\<close> that the repository uses are written out below as
  the library documents them. Every separator the repository passes is a non-empty
  ASCII string.
\<close>

abbreviation LF :: string where "LF \<equiv> [CHR 0x0A]"
abbreviation CRLF :: string where "CRLF \<equiv> [CHR 0x0D, CHR 0x0A]"

definition strings_HasPrefix :: "string \<Rightarrow> string \<Rightarrow> bool" where
  "strings_HasPrefix s pre = (take (length pre) s = pre)"

fun strings_Contains :: "string \<Rightarrow> string \<Rightarrow> bool" where
  "strings_Contains [] sub = (sub = [])"
| "strings_Contains (c # cs) sub = (strings_HasPrefix (c # cs) sub \<or> strings_Contains cs sub)"

text \<open>
  \<open>splitOn sep cur rest\<close> scans \<open>rest\<close> from the left; \<open>cur\<close> holds, reversed, the
  bytes of the piece being collected. Occurrences of \<open>sep\<close> are taken left to right
  and do not overlap.
\<close>

function splitOn :: "string \<Rightarrow> string \<Rightarrow> string \<Rightarrow> string list" where
  "splitOn sep cur [] = [rev cur]"
| "splitOn sep cur (c # cs) =
     (if sep \<noteq> [] \<and> strings_HasPrefix (c # cs) sep
      then rev cur # splitOn sep [] (drop (length sep) (c # cs))
      else splitOn sep (c # cur) cs)"
  by pat_completeness auto
termination
  by (relation "measure (\<lambda>(sep, cur, rest). length rest)") auto

text \<open>
  \<open>strings.Split(s, sep)\<close>: the pieces of \<open>s\<close> between the occurrences of \<open>sep\<close>.
  With an empty separator the library explodes \<open>s\<close> into its characters (and an
  empty \<open>s\<close> into the empty slice); the repository never does that.
\<close>

definition strings_Split :: "string \<Rightarrow> string \<Rightarrow> string list" where
  "strings_Split s sep = (if sep = [] then map (\<lambda>c. [c]) s else splitOn sep [] s)"

function strings_ReplaceAll :: "string \<Rightarrow> string \<Rightarrow> string \<Rightarrow> string" where
  "strings_ReplaceAll [] old new = []"
| "strings_ReplaceAll (c # cs) old new =
     (if old \<noteq> [] \<and> strings_HasPrefix (c # cs) old
      then new @ strings_ReplaceAll (drop (length old) (c # cs)) old new
      else c # strings_ReplaceAll cs old new)"
  by pat_completeness auto
termination
  by (relation "measure (\<lambda>(s, old, new). length s)") auto

definition strings_Trim :: "string \<Rightarrow> string \<Rightarrow> string" where
  "strings_Trim s cutset =
     rev (dropWhile (\<lambda>c. c \<in> set cutset) (rev (dropWhile (\<lambda>c. c \<in> set cutset) s)))"

text \<open>\<open>fmt.Sprint\<close> of an integer: its decimal digits, with a minus sign when negative.\<close>

definition digitChar :: "nat \<Rightarrow> char" where
  "digitChar d = ''0123456789'' ! d"

function decimalDigits :: "nat \<Rightarrow> string" where
  "decimalDigits n = (if n < 10 then [digitChar n] else decimalDigits (n div 10) @ [digitChar (n mod 10)])"
  by pat_completeness auto
termination
  by (relation "measure id") auto

definition fmt_Sprint_int :: "int \<Rightarrow> string" where
  "fmt_Sprint_int i = (if i < 0 then CHR ''-'' # decimalDigits (nat (- i)) else decimalDigits (nat i))"

text \<open>
  A point in time is the number of nanoseconds since the Unix epoch. \<open>Time.In(time.UTC)\<close>
  changes the location a time is printed in, not the instant, so it is the identity here.
\<close>

type_synonym time = int

definition time_Hour :: int where
  "time_Hour = 3600 * 1000000000"

definition time_Add :: "time \<Rightarrow> int \<Rightarrow> time" where
  "time_Add t d = t + d"

text \<open>The zero value of \<open>time.Time\<close>: January 1 of year 1, 00:00:00 UTC.\<close>

definition zeroTime :: time where
  "zeroTime = - 62135596800 * 1000000000"

datatype layout = RFC3339 | DateOnly

text \<open>
  The parsed form of a language tag of \<open>golang.org/x/text/language\<close>: the base language
  and the region subtag (empty when the tag has none).
\<close>

record language_Tag =
  tag_Base :: string
  tag_Region :: string

text \<open>
  What the program takes from outside the repository, as parameters of the model:
  \<^item> \<open>url_JoinPath\<close>: \<open>url.JoinPath\<close>, \<open>None\<close> when it returns an error;
  \<^item> \<open>time_Now\<close>: the clock read by \<open>time.Now()\<close>;
  \<^item> \<open>time_Parse\<close>: \<open>time.Parse(layout, value)\<close>, \<open>None\<close> when it returns an error;
  \<^item> \<open>time_Format_RFC3339\<close>: \<open>t.Format(time.RFC3339)\<close>;
  \<^item> \<open>language_Parse\<close>: \<open>language.Parse\<close>, \<open>None\<close> when it returns an error;
  \<^item> \<open>display_Name\<close>: \<open>display.English.Languages().Name\<close> of a base language.
\<close>

record golib =
  url_JoinPath :: "string \<Rightarrow> string \<Rightarrow> string option"
  time_Now :: time
  time_Parse :: "layout \<Rightarrow> string \<Rightarrow> time option"
  time_Format_RFC3339 :: "time \<Rightarrow> string"
  language_Parse :: "string \<Rightarrow> language_Tag option"
  display_Name :: "string \<Rightarrow> string"

datatype go_error =
    ErrFailedToPrepare
  | ErrFailedToParseFrom string
  | ErrFailedToParseUntil string
  | ErrLanguageParse string
  | ErrUnableToParseLocale string
  | ErrGetRecordInfo go_error
  | ErrListRecordInfo go_error
  | ErrIdentifierExists go_error
  | ErrSQL
  | PanicIndexOutOfRange

section \<open>Locale parser (cncdb.go, parseLocale)\<close>

text \<open>
  Lines 117 to 120 of \<open>parseLocale\<close>: the components the fallback works on. The
  whole of \<open>loc\<close> is split, not only the part before the first dot.
\<close>

definition localeFallbackParts :: "string \<Rightarrow> string list" where
  "localeFallbackParts loc =
     (let tmp = strings_Split loc ''_''
      in if length tmp = 0 then strings_Split loc ''-'' else tmp)"

definition parseLocale :: "golib \<Rightarrow> string \<Rightarrow> go_error + language_Tag" where
  "parseLocale lib loc =
     (case strings_Split loc ''.'' of
        [] \<Rightarrow> Inl PanicIndexOutOfRange
      | base # _ \<Rightarrow>
          (case language_Parse lib base of
             Some ans \<Rightarrow> Inr ans
           | None \<Rightarrow>
               (let tmp = localeFallbackParts loc
                in if length tmp \<noteq> 2 then Inl (ErrUnableToParseLocale loc)
                   else (case language_Parse lib (tmp ! 0) of
                           Some ans \<Rightarrow> Inr ans
                         | None \<Rightarrow> Inl (ErrLanguageParse (tmp ! 0))))))"

section \<open>Records of the repository (cncdb.go)\<close>

text \<open>\<open>sql.NullString\<close> and \<open>sql.NullInt64\<close>: a NULL column scans to \<open>Valid = false\<close>
  with the zero value.\<close>

record NullString =
  ns_String :: string
  ns_Valid :: bool

record NullInt64 =
  ni_Int64 :: int
  ni_Valid :: bool

definition NullString_null :: NullString where
  "NullString_null = \<lparr>ns_String = [], ns_Valid = False\<rparr>"

record ContactPersonData =
  cp_Firstname :: string
  cp_Lastname :: string
  cp_Email :: string
  cp_Affiliation :: NullString

record CorpusData =
  cd_Size :: NullInt64
  cd_Locale :: "language_Tag option"
  cd_Keywords :: NullString

record DBData =
  ID :: int
  Date :: time
  Hosted :: bool
  Type :: string
  Name :: string
  DescEN :: NullString
  DescCS :: NullString
  DateIssued :: string
  TitleEN :: string
  TitleCS :: string
  Link :: NullString
  License :: string
  Authors :: string
  ContactPerson :: ContactPersonData
  CorpusData :: CorpusData

text \<open>The zero value of \<open>DBData\<close>, as \<open>var data DBData\<close> declares it.\<close>

definition zeroDBData :: DBData where
  "zeroDBData =
     \<lparr>ID = 0, Date = zeroTime, Hosted = False, Type = [], Name = [],
      DescEN = NullString_null, DescCS = NullString_null, DateIssued = [],
      TitleEN = [], TitleCS = [], Link = NullString_null, License = [], Authors = [],
      ContactPerson = \<lparr>cp_Firstname = [], cp_Lastname = [], cp_Email = [],
                        cp_Affiliation = NullString_null\<rparr>,
      CorpusData = \<lparr>cd_Size = \<lparr>ni_Int64 = 0, ni_Valid = False\<rparr>, cd_Locale = None,
                     cd_Keywords = NullString_null\<rparr>\<rparr>"

section \<open>Author list parser (cnchook/tools.go, getAuthorList)\<close>

record AuthorComponent =
  LastName :: string
  FirstName :: string

text \<open>
  The body of the \<open>for\<close> loop of \<open>getAuthorList\<close> for one line: the authors slice
  after the line has been handled. The indices are read only under the length tests
  of the source.
\<close>

definition appendAuthor :: "AuthorComponent list \<Rightarrow> string \<Rightarrow> AuthorComponent list" where
  "appendAuthor authors author =
     (let sAuthor = strings_Split (strings_Trim author '' '') '' ''
      in if length sAuthor = 1
         then authors @ [\<lparr>LastName = sAuthor ! 0, FirstName = []\<rparr>]
         else if length sAuthor > 1
         then authors @ [\<lparr>LastName = sAuthor ! 1, FirstName = sAuthor ! 0\<rparr>]
         else authors)"

fun authorsLoop :: "AuthorComponent list \<Rightarrow> string list \<Rightarrow> AuthorComponent list" where
  "authorsLoop authors [] = authors"
| "authorsLoop authors (author # rest) = authorsLoop (appendAuthor authors author) rest"

definition getAuthorList :: "DBData \<Rightarrow> AuthorComponent list" where
  "getAuthorList data =
     authorsLoop [] (strings_Split (strings_ReplaceAll (Authors data) CRLF LF) LF)"

text \<open>
  The author that one line contributes, read off the trimmed line directly: without a
  space inside, the line is the last name; otherwise the first name is the text before
  the first space and the last name is the text between the first space and the next.
\<close>

definition authorOfLine :: "string \<Rightarrow> AuthorComponent" where
  "authorOfLine line =
     (let t = strings_Trim line '' ''
      in if CHR '' '' \<notin> set t then \<lparr>LastName = t, FirstName = []\<rparr>
         else \<lparr>LastName = takeWhile (\<lambda>c. c \<noteq> CHR '' '')
                              (tl (dropWhile (\<lambda>c. c \<noteq> CHR '' '') t)),
               FirstName = takeWhile (\<lambda>c. c \<noteq> CHR '' '') t\<rparr>)"

definition authorLines :: "DBData \<Rightarrow> string list" where
  "authorLines data = strings_Split (strings_ReplaceAll (Authors data) CRLF LF) LF"

definition getKontextPath :: "string \<Rightarrow> string" where
  "getKontextPath corpusID = ''https://www.korpus.cz/kontext/query?corpname='' @ corpusID"

section \<open>Protocol data (package oaipmh) and metadata formats (package formats)\<close>

record MultilangElement =
  me_Value :: string
  me_Lang :: string

text \<open>\<open>DataArray.Add\<close> appends one element.\<close>

definition Add :: "MultilangElement list \<Rightarrow> string \<Rightarrow> string \<Rightarrow> MultilangElement list" where
  "Add d v lang = d @ [\<lparr>me_Value = v, me_Lang = lang\<rparr>]"

record DublinCore =
  dc_Title :: "MultilangElement list"
  dc_Creator :: "MultilangElement list"
  dc_Subject :: "MultilangElement list"
  dc_Description :: "MultilangElement list"
  dc_Publisher :: "MultilangElement list"
  dc_Contributor :: "MultilangElement list"
  dc_Date :: "MultilangElement list"
  dc_Type :: "MultilangElement list"
  dc_Format :: "MultilangElement list"
  dc_Identifier :: "MultilangElement list"
  dc_Source :: "MultilangElement list"
  dc_Language :: "MultilangElement list"
  dc_Relation :: "MultilangElement list"
  dc_Coverage :: "MultilangElement list"
  dc_Rights :: "MultilangElement list"

text \<open>\<open>NewDublinCore\<close>: every element array starts empty (the namespace attributes are
  constants and are left out).\<close>

definition NewDublinCore :: DublinCore where
  "NewDublinCore = \<lparr>dc_Title = [], dc_Creator = [], dc_Subject = [], dc_Description = [],
     dc_Publisher = [], dc_Contributor = [], dc_Date = [], dc_Type = [], dc_Format = [],
     dc_Identifier = [], dc_Source = [], dc_Language = [], dc_Relation = [], dc_Coverage = [],
     dc_Rights = []\<rparr>"

definition DublinCoreMetadataPrefix :: string where
  "DublinCoreMetadataPrefix = ''oai_dc''"

definition CMDIMetadataPrefix :: string where
  "CMDIMetadataPrefix = ''cmdi''"

record TypedElement =
  te_Type :: string
  te_Value :: string

record ContactPersonComponent =
  cpc_LastName :: string
  cpc_FirstName :: string
  cpc_Email :: string
  cpc_Affiliation :: string

record BibliographicInfoComponent =
  bi_Titles :: "MultilangElement list"
  bi_Authors :: "AuthorComponent list"
  bi_DateIssued :: "string option"
  bi_Identifiers :: "TypedElement list"
  bi_ContactPerson :: ContactPersonComponent
  bi_Publishers :: "string list"

record LanguageComponent =
  lc_Name :: string
  lc_Code :: string

record SizeComponent =
  sc_Size :: string
  sc_Unit :: string

record DataInfoComponent =
  di_Type :: string
  di_Description :: "MultilangElement list"
  di_Languages :: "LanguageComponent list option"
  di_Keywords :: "string list option"
  di_SizeInfo :: "SizeComponent list option"

record CNCResourceProfile =
  prof_BibliographicInfo :: BibliographicInfoComponent
  prof_DataInfo :: DataInfoComponent
  prof_LicenseInfo :: "string list"

record CMDIResourceProxy =
  rp_ID :: string
  rp_MimeType :: string
  rp_ResourceType :: string
  rp_ResourceRef :: string

record CMDIFormat =
  cmdi_MdSelfLink :: string
  cmdi_ResourceProxyList :: "CMDIResourceProxy list"
  cmdi_Components :: CNCResourceProfile

text \<open>\<open>ElementWrapper.Value\<close> holds one of the two metadata documents.\<close>

datatype metadata = DCValue DublinCore | CMDIValue CMDIFormat

record OAIPMHRecordHeader =
  hdr_Status :: string
  hdr_Identifier :: string
  hdr_Datestamp :: time
  hdr_SetSpec :: "string list"

record OAIPMHRecord =
  rec_Header :: "OAIPMHRecordHeader option"
  rec_Metadata :: "metadata option"

definition NewOAIPMHRecord :: "metadata \<Rightarrow> OAIPMHRecord" where
  "NewOAIPMHRecord md =
     \<lparr>rec_Header = Some \<lparr>hdr_Status = [], hdr_Identifier = [], hdr_Datestamp = zeroTime,
                            hdr_SetSpec = []\<rparr>,
      rec_Metadata = Some md\<rparr>"

definition emptyOAIPMHRecord :: OAIPMHRecord where
  "emptyOAIPMHRecord = \<lparr>rec_Header = None, rec_Metadata = None\<rparr>"

record OAIPMHIdentify =
  idf_RepositoryName :: string
  idf_BaseURL :: string
  idf_AdminEmail :: "string list"
  idf_EarliestDatestamp :: time
  idf_DeletedRecord :: string
  idf_Granularity :: string
  idf_ProtocolVersion :: string

record OAIPMHMetadataFormat =
  mf_MetadataPrefix :: string
  mf_Schema :: string
  mf_MetadataNamespace :: string

record OAIPMHSet =
  set_SetSpec :: string
  set_SetName :: string

definition GetDublinCoreFormat :: OAIPMHMetadataFormat where
  "GetDublinCoreFormat =
     \<lparr>mf_MetadataPrefix = DublinCoreMetadataPrefix,
      mf_Schema = ''http://www.openarchives.org/OAI/2.0/oai_dc.xsd'',
      mf_MetadataNamespace = ''http://www.openarchives.org/OAI/2.0/oai_dc/''\<rparr>"

text \<open>\<open>GetCMDIFormat\<close> of the \<open>LindatClarinProfile\<close>, whose schema URL is a constant.\<close>

definition GetCMDIFormat :: OAIPMHMetadataFormat where
  "GetCMDIFormat =
     \<lparr>mf_MetadataPrefix = CMDIMetadataPrefix,
      mf_Schema = ''https://catalog.clarin.eu/ds/ComponentRegistry/rest/registry/1.x/profiles/clarin.eu:cr1:p_1403526079380/xsd'',
      mf_MetadataNamespace = ''http://www.clarin.eu/cmd/''\<rparr>"

section \<open>Metadata conversion (cncdb.go, second file: package cnchook)\<close>

record RepositoryInfo =
  ri_Name :: string
  ri_BaseURL :: string
  ri_AdminEmail :: "string list"

record Conf =
  conf_RepositoryInfo :: RepositoryInfo
  conf_Publisher :: string

text \<open>
  Modelled from the spec: the declaration of \<open>MetadataType\<close> and of its two constants
  is not among the sources; section 3 of the specification gives the record types as
  \<open>corpus\<close> and \<open>service\<close>, the values the SQL of \<open>cncdb.go\<close> compares \<open>m.type\<close> with.
\<close>

definition CorpusMetadataType :: string where
  "CorpusMetadataType = ''corpus''"

definition ServiceMetadataType :: string where
  "ServiceMetadataType = ''service''"

definition addCreator :: "MultilangElement list \<Rightarrow> AuthorComponent \<Rightarrow> MultilangElement list" where
  "addCreator creators author =
     (if FirstName author = [] then Add creators (LastName author) []
      else Add creators (FirstName author @ '' '' @ LastName author) [])"

text \<open>Lines 333 to 362 of \<open>dcRecordFromData\<close>: the Dublin Core document of a record.\<close>

definition dcMetadataFromData :: "golib \<Rightarrow> DBData \<Rightarrow> DublinCore" where
  "dcMetadataFromData lib data =
     (let m = NewDublinCore;
          m = dc_Title_update (\<lambda>d. Add d (TitleEN data) ''en'') m;
          m = dc_Title_update (\<lambda>d. Add d (TitleCS data) ''cs'') m;
          m = (if ns_Valid (DescCS data)
               then dc_Description_update (\<lambda>d. Add d (ns_String (DescCS data)) ''cs'') m
               else m);
          m = (if ns_Valid (DescEN data)
               then dc_Description_update (\<lambda>d. Add d (ns_String (DescEN data)) ''en'') m
               else m);
          m = dc_Date_update (\<lambda>d. Add d (time_Format_RFC3339 lib (Date data)) []) m;
          m = dc_Creator_update (\<lambda>d. foldl addCreator d (getAuthorList data)) m;
          m = dc_Identifier_update (\<lambda>d. Add d (Name data) []) m;
          m = dc_Type_update (\<lambda>d. Add d (Type data) []) m;
          m = dc_Rights_update (\<lambda>d. Add d (License data) []) m
      in if Type data = CorpusMetadataType
         then (case cd_Locale (CorpusData data) of
                 Some tag \<Rightarrow> dc_Language_update (\<lambda>d. Add d (tag_Base tag) []) m
               | None \<Rightarrow> m)
         else m)"

definition setHeader :: "OAIPMHRecord \<Rightarrow> time \<Rightarrow> string \<Rightarrow> OAIPMHRecord" where
  "setHeader record datestamp recordID =
     record\<lparr>rec_Header := map_option
        (\<lambda>h. h\<lparr>hdr_Datestamp := datestamp, hdr_Identifier := recordID\<rparr>) (rec_Header record)\<rparr>"

definition dcRecordFromData :: "golib \<Rightarrow> DBData \<Rightarrow> OAIPMHRecord" where
  "dcRecordFromData lib data =
     setHeader (NewOAIPMHRecord (DCValue (dcMetadataFromData lib data))) (Date data)
       (fmt_Sprint_int (ID data))"

definition cmdiLindatClarinRecordFromData :: "golib \<Rightarrow> Conf \<Rightarrow> DBData \<Rightarrow> OAIPMHRecord" where
  "cmdiLindatClarinRecordFromData lib conf data =
     (let recordID = fmt_Sprint_int (ID data);
          corpus = (Type data = CorpusMetadataType);
          bib = \<lparr>bi_Titles = [\<lparr>me_Value = TitleEN data, me_Lang = ''en''\<rparr>,
                              \<lparr>me_Value = TitleCS data, me_Lang = ''cs''\<rparr>],
                 bi_Authors = getAuthorList data,
                 bi_DateIssued = (if DateIssued data = [] then Some (DateIssued data) else None),
                 bi_Identifiers = [\<lparr>te_Type = [], te_Value = Name data\<rparr>],
                 bi_ContactPerson =
                   \<lparr>cpc_LastName = cp_Lastname (ContactPerson data),
                    cpc_FirstName = cp_Firstname (ContactPerson data),
                    cpc_Email = cp_Email (ContactPerson data),
                    cpc_Affiliation = ns_String (cp_Affiliation (ContactPerson data))\<rparr>,
                 bi_Publishers = [conf_Publisher conf]\<rparr>;
          info = \<lparr>di_Type = Type data,
                  di_Description = [\<lparr>me_Value = ns_String (DescEN data), me_Lang = ''en''\<rparr>,
                                    \<lparr>me_Value = ns_String (DescCS data), me_Lang = ''cs''\<rparr>],
                  di_Languages =
                    (if corpus
                     then map_option (\<lambda>tag. [\<lparr>lc_Name = display_Name lib (tag_Base tag),
                                                 lc_Code = tag_Base tag\<rparr>])
                            (cd_Locale (CorpusData data))
                     else None),
                  di_Keywords =
                    (if corpus \<and> ns_String (cd_Keywords (CorpusData data)) \<noteq> []
                     then Some (strings_Split (ns_String (cd_Keywords (CorpusData data))) '','')
                     else None),
                  di_SizeInfo =
                    (if corpus
                     then Some [\<lparr>sc_Size = fmt_Sprint_int (ni_Int64 (cd_Size (CorpusData data))),
                                 sc_Unit = ''words''\<rparr>]
                     else None)\<rparr>;
          searchPage =
            (if corpus
             then [\<lparr>rp_ID = ''sp_'' @ recordID, rp_MimeType = ''text/html'',
                    rp_ResourceType = ''SearchPage'', rp_ResourceRef = getKontextPath (Name data)\<rparr>]
             else []);
          link = ns_String (Link data);
          resource =
            (if link \<noteq> []
             then [\<lparr>rp_ID = ''uri_'' @ recordID, rp_MimeType = ''text/html'',
                    rp_ResourceType = ''Resource'',
                    rp_ResourceRef =
                      (if strings_Contains link ''wiki.korpus.cz''
                       then strings_ReplaceAll link ''/cnk:'' ''/en:cnk:'' else link)\<rparr>]
             else []);
          md = \<lparr>cmdi_MdSelfLink =
                  ri_BaseURL (conf_RepositoryInfo conf) @ ''/record/'' @ recordID @ ''?format=cmdi'',
                cmdi_ResourceProxyList = searchPage @ resource,
                cmdi_Components =
                  \<lparr>prof_BibliographicInfo = bib, prof_DataInfo = info,
                   prof_LicenseInfo = [License data]\<rparr>\<rparr>
      in setHeader (NewOAIPMHRecord (CMDIValue md)) (Date data) recordID)"

section \<open>The record repository (cncdb.go, package cncdb)\<close>

text \<open>
  The database is outside the program. A query that returns one row is a function of
  the values bound to its parameters; \<open>SqlErrNoRows\<close> is \<open>sql.ErrNoRows\<close> and
  \<open>SqlErr\<close> any other failure of the query or of \<open>Scan\<close>.
\<close>

datatype 'a sql_result = SqlOk 'a | SqlErrNoRows | SqlErr

text \<open>
  One row as \<open>Scan\<close> reads it: the columns stored into the \<open>DBData\<close>, the locale
  column (scanned into a local variable), and the columns that the \<open>WHERE\<close> clause of
  the list query tests: \<open>m.deleted\<close>, \<open>cc.corplist_id\<close> and \<open>cpc.corplist_id\<close> (\<open>None\<close>
  for NULL). The column \<open>GREATEST(m.created, m.updated)\<close> is \<open>Date\<close>.
\<close>

record ScannedRow =
  sr_Data :: DBData
  sr_Locale :: NullString
  sr_Deleted :: bool
  sr_CorplistID :: "int option"
  sr_ParallelCorplistID :: "int option"

text \<open>
  \<open>db_Rows\<close> are the rows that the \<open>FROM\<close> part of the list query yields, one for each
  record of the repository; \<open>db_ListFails\<close> says that the list query or the scan of a
  row fails.
\<close>

record sqlDB =
  db_FirstDate :: "time sql_result"
  db_IdentifierExists :: "string \<Rightarrow> int \<Rightarrow> int sql_result"
  db_RecordInfo :: "string \<Rightarrow> int \<Rightarrow> ScannedRow sql_result"
  db_ListFails :: bool
  db_Rows :: "ScannedRow list"

record CNCMySQLHandler =
  conn :: sqlDB
  publicCorplistID :: int

definition GetFirstDate :: "CNCMySQLHandler \<Rightarrow> time \<times> go_error option" where
  "GetFirstDate c =
     (case db_FirstDate (conn c) of
        SqlOk date \<Rightarrow> (date, None)
      | SqlErrNoRows \<Rightarrow> (zeroTime, Some ErrSQL)
      | SqlErr \<Rightarrow> (zeroTime, Some ErrSQL))"

definition IdentifierExists :: "CNCMySQLHandler \<Rightarrow> string \<Rightarrow> go_error + bool" where
  "IdentifierExists c identifier =
     (case db_IdentifierExists (conn c) identifier (publicCorplistID c) of
        SqlOk i \<Rightarrow> Inr True
      | SqlErrNoRows \<Rightarrow> Inr False
      | SqlErr \<Rightarrow> Inl (ErrIdentifierExists ErrSQL))"

definition withLocale :: "DBData \<Rightarrow> language_Tag option \<Rightarrow> DBData" where
  "withLocale data tag = data\<lparr>CorpusData := (CorpusData data)\<lparr>cd_Locale := tag\<rparr>\<rparr>"

definition GetRecordInfo :: "golib \<Rightarrow> CNCMySQLHandler \<Rightarrow> string \<Rightarrow> go_error + DBData option" where
  "GetRecordInfo lib c identifier =
     (case db_RecordInfo (conn c) identifier (publicCorplistID c) of
        SqlErrNoRows \<Rightarrow> Inr None
      | SqlErr \<Rightarrow> Inl (ErrGetRecordInfo ErrSQL)
      | SqlOk row \<Rightarrow>
          (if ns_Valid (sr_Locale row)
           then (case parseLocale lib (ns_String (sr_Locale row)) of
                   Inl err \<Rightarrow> Inl (ErrGetRecordInfo err)
                 | Inr tag \<Rightarrow> Inr (Some (withLocale (sr_Data row) (Some tag))))
           else Inr (Some (withLocale (sr_Data row) None))))"

text \<open>The conditions that \<open>ListRecordInfo\<close> joins with \<open>AND\<close> into its \<open>WHERE\<close> clause,
  each with the value bound to its parameter.\<close>

datatype sql_cond =
    CondNotDeleted
  | CondListed int
  | CondDateGE time
  | CondDateLE time

fun holds :: "sql_cond \<Rightarrow> ScannedRow \<Rightarrow> bool" where
  "holds CondNotDeleted r = (\<not> sr_Deleted r)"
| "holds (CondListed pid) r =
     ((Type (sr_Data r) = ''corpus'' \<and> sr_CorplistID r = Some pid)
      \<or> sr_ParallelCorplistID r = Some pid \<or> Type (sr_Data r) \<noteq> ''corpus'')"
| "holds (CondDateGE t) r = (Date (sr_Data r) \<ge> t)"
| "holds (CondDateLE t) r = (Date (sr_Data r) \<le> t)"

definition whereClause :: "CNCMySQLHandler \<Rightarrow> time option \<Rightarrow> time option \<Rightarrow> sql_cond list" where
  "whereClause c from until =
     [CondNotDeleted, CondListed (publicCorplistID c)]
     @ (case from of None \<Rightarrow> [] | Some f \<Rightarrow> [CondDateGE f])
     @ (case until of None \<Rightarrow> [] | Some u \<Rightarrow> [CondDateLE u])"

text \<open>The loop over \<open>rows.Next()\<close>: a locale that does not parse fails the whole listing.\<close>

fun scanRows :: "golib \<Rightarrow> DBData list \<Rightarrow> ScannedRow list \<Rightarrow> go_error + DBData list" where
  "scanRows lib results [] = Inr results"
| "scanRows lib results (row # rows) =
     (if ns_String (sr_Locale row) \<noteq> []
      then (case parseLocale lib (ns_String (sr_Locale row)) of
              Inl err \<Rightarrow> Inl (ErrListRecordInfo err)
            | Inr tag \<Rightarrow> scanRows lib (results @ [withLocale (sr_Data row) (Some tag)]) rows)
      else scanRows lib (results @ [withLocale (sr_Data row) None]) rows)"

definition ListRecordInfo ::
  "golib \<Rightarrow> CNCMySQLHandler \<Rightarrow> time option \<Rightarrow> time option \<Rightarrow> go_error + DBData list" where
  "ListRecordInfo lib c from until =
     (if db_ListFails (conn c) then Inl (ErrListRecordInfo ErrSQL)
      else scanRows lib []
             (filter (\<lambda>r. list_all (\<lambda>cond. holds cond r) (whereClause c from until))
                (db_Rows (conn c))))"

section \<open>Protocol errors, requests and responses (package oaipmh)\<close>

definition ErrorCodeBadArgument :: string where "ErrorCodeBadArgument = ''badArgument''"
definition ErrorCodeBadResumptionToken :: string where "ErrorCodeBadResumptionToken = ''badResumptionToken''"
definition ErrorCodeBadVerb :: string where "ErrorCodeBadVerb = ''badVerb''"
definition ErrorCodeCannotDisseminateFormat :: string where "ErrorCodeCannotDisseminateFormat = ''cannotDisseminateFormat''"
definition ErrorCodeIDDoesNotExist :: string where "ErrorCodeIDDoesNotExist = ''idDoesNotExist''"
definition ErrorCodeNoRecordsMatch :: string where "ErrorCodeNoRecordsMatch = ''noRecordsMatch''"
definition ErrorCodeNoMetadataFormats :: string where "ErrorCodeNoMetadataFormats = ''noMetadataFormats''"
definition ErrorCodeNoSetHierarchy :: string where "ErrorCodeNoSetHierarchy = ''noSetHierarchy''"

record OAIPMHError =
  err_Code :: string
  err_Message :: string

type_synonym OAIPMHErrors = "OAIPMHError list"

definition Errors_Add :: "OAIPMHErrors \<Rightarrow> string \<Rightarrow> string \<Rightarrow> OAIPMHErrors" where
  "Errors_Add r code message = r @ [\<lparr>err_Code = code, err_Message = message\<rparr>]"

definition HasErrors :: "OAIPMHErrors \<Rightarrow> bool" where
  "HasErrors r = (length r > 0)"

definition ArgVerb :: string where "ArgVerb = ''verb''"
definition ArgIdentifier :: string where "ArgIdentifier = ''identifier''"
definition ArgMetadataPrefix :: string where "ArgMetadataPrefix = ''metadataPrefix''"
definition ArgFrom :: string where "ArgFrom = ''from''"
definition ArgUntil :: string where "ArgUntil = ''until''"
definition ArgSet :: string where "ArgSet = ''set''"
definition ArgResumptionToken :: string where "ArgResumptionToken = ''resumptionToken''"

definition VerbIdentify :: string where "VerbIdentify = ''Identify''"
definition VerbGetRecord :: string where "VerbGetRecord = ''GetRecord''"
definition VerbListIdentifiers :: string where "VerbListIdentifiers = ''ListIdentifiers''"
definition VerbListMetadataFormats :: string where "VerbListMetadataFormats = ''ListMetadataFormats''"
definition VerbListRecords :: string where "VerbListRecords = ''ListRecords''"
definition VerbListSets :: string where "VerbListSets = ''ListSets''"

record OAIPMHRequest =
  req_URL :: string
  req_Verb :: string
  req_Identifier :: string
  req_MetadataPrefix :: string
  req_From :: "time option"
  req_Until :: "time option"
  req_Set :: string
  req_ResumptionToken :: string

record OAIPMHResponse =
  resp_ResponseDate :: time
  resp_Request :: OAIPMHRequest
  resp_Errors :: OAIPMHErrors
  resp_Identify :: "OAIPMHIdentify option"
  resp_GetRecord :: "OAIPMHRecord option"
  resp_ListMetadataFormats :: "OAIPMHMetadataFormat list option"
  resp_ListIdentifiers :: "OAIPMHRecordHeader list option"
  resp_ListRecords :: "OAIPMHRecord list option"
  resp_ListSets :: "OAIPMHSet list option"
  resp_ProtocolVersion :: string

definition NewOAIPMHResponse :: "golib \<Rightarrow> OAIPMHRequest \<Rightarrow> OAIPMHResponse" where
  "NewOAIPMHResponse lib request =
     \<lparr>resp_ResponseDate = time_Now lib, resp_Request = request, resp_Errors = [],
      resp_Identify = None, resp_GetRecord = None, resp_ListMetadataFormats = None,
      resp_ListIdentifiers = None, resp_ListRecords = None, resp_ListSets = None,
      resp_ProtocolVersion = ''2.0''\<rparr>"

text \<open>
  \<open>url.Values\<close> is a Go map from a key to the list of its values. It is an association
  list here: the keys of a map are distinct, and the order of the list stands for the
  order in which \<open>range\<close> visits the keys, which Go leaves unspecified.
\<close>

type_synonym url_Values = "(string \<times> string list) list"

definition Has :: "url_Values \<Rightarrow> string \<Rightarrow> bool" where
  "Has v key = (map_of v key \<noteq> None)"

definition Get :: "url_Values \<Rightarrow> string \<Rightarrow> string" where
  "Get v key = (case map_of v key of None \<Rightarrow> [] | Some [] \<Rightarrow> [] | Some (x # xs) \<Rightarrow> x)"

definition getTypedArg :: "url_Values \<Rightarrow> string \<Rightarrow> string" where
  "getTypedArg args name = Get args name"

section \<open>Argument grammar of the verbs (oaipmh/args.go)\<close>

text \<open>\<open>Verb.Validate\<close> returns nil (here \<open>True\<close>) for the six verbs, an error otherwise.\<close>

definition Validate :: "string \<Rightarrow> bool" where
  "Validate v = (v = VerbGetRecord \<or> v = VerbIdentify \<or> v = VerbListIdentifiers
     \<or> v = VerbListMetadataFormats \<or> v = VerbListRecords \<or> v = VerbListSets)"

definition ValidateArg :: "string \<Rightarrow> string \<Rightarrow> bool" where
  "ValidateArg v arg =
     (if v = VerbGetRecord
      then arg = ArgVerb \<or> arg = ArgIdentifier \<or> arg = ArgMetadataPrefix
      else if v = VerbListIdentifiers
      then arg = ArgVerb \<or> arg = ArgMetadataPrefix \<or> arg = ArgFrom \<or> arg = ArgUntil
           \<or> arg = ArgSet \<or> arg = ArgResumptionToken
      else if v = VerbListMetadataFormats
      then arg = ArgVerb \<or> arg = ArgIdentifier
      else if v = VerbListRecords
      then arg = ArgVerb \<or> arg = ArgMetadataPrefix \<or> arg = ArgFrom \<or> arg = ArgUntil
           \<or> arg = ArgSet \<or> arg = ArgResumptionToken
      else if v = VerbListSets
      then arg = ArgVerb \<or> arg = ArgResumptionToken
      else arg = ArgVerb)"

definition reqArgs :: "string \<Rightarrow> string list" where
  "reqArgs v =
     [ArgVerb] @
     (if v = VerbGetRecord then [ArgIdentifier, ArgMetadataPrefix]
      else if v = VerbListIdentifiers then [ArgMetadataPrefix]
      else if v = VerbListRecords then [ArgMetadataPrefix]
      else [])"

definition ValidateRequiredArgs :: "string \<Rightarrow> url_Values \<Rightarrow> string" where
  "ValidateRequiredArgs v args =
     (case find (\<lambda>arg. \<not> Has args arg) (reqArgs v) of Some arg \<Rightarrow> arg | None \<Rightarrow> [])"

section \<open>The hook interface and the handler (part 008: package oaipmh)\<close>

record 'a ResultWrapper =
  rw_Data :: 'a
  rw_Errors :: OAIPMHErrors
  rw_HTTPCode :: int

definition NoError :: "'a ResultWrapper \<Rightarrow> bool" where
  "NoError w = (\<not> HasErrors (rw_Errors w) \<and> rw_HTTPCode w < 400)"

definition NewResultWrapper :: "'a \<Rightarrow> 'a ResultWrapper" where
  "NewResultWrapper data = \<lparr>rw_Data = data, rw_Errors = [], rw_HTTPCode = 200\<rparr>"

text \<open>The interface \<open>VLOHook\<close>: a record of its eight methods.\<close>

record VLOHook =
  hook_Identify :: "OAIPMHIdentify ResultWrapper"
  hook_GetRecord :: "OAIPMHRequest \<Rightarrow> OAIPMHRecord ResultWrapper"
  hook_ListIdentifiers :: "OAIPMHRequest \<Rightarrow> OAIPMHRecordHeader list ResultWrapper"
  hook_ListMetadataFormats :: "OAIPMHRequest \<Rightarrow> OAIPMHMetadataFormat list ResultWrapper"
  hook_ListRecords :: "OAIPMHRequest \<Rightarrow> OAIPMHRecord list ResultWrapper"
  hook_ListSets :: "OAIPMHRequest \<Rightarrow> OAIPMHSet list ResultWrapper"
  SupportsSets :: bool
  SupportedMetadataPrefixes :: "string list"

record VLOHandler =
  basePath :: string
  hook :: VLOHook

text \<open>Lines 139 to 151 and 152 to 165 of \<open>getReqResp\<close>: the two date bounds.\<close>

definition parseFrom :: "golib \<Rightarrow> string \<Rightarrow> go_error + time option" where
  "parseFrom lib from =
     (if from \<noteq> []
      then (case (if strings_Contains from ''T'' then time_Parse lib RFC3339 from
                  else time_Parse lib DateOnly from) of
              None \<Rightarrow> Inl (ErrFailedToParseFrom from)
            | Some parsed \<Rightarrow> Inr (Some parsed))
      else Inr None)"

definition parseUntil :: "golib \<Rightarrow> string \<Rightarrow> go_error + time option" where
  "parseUntil lib until =
     (if until \<noteq> []
      then (case (if strings_Contains until ''T'' then time_Parse lib RFC3339 until
                  else map_option (\<lambda>parsed. time_Add parsed (24 * time_Hour))
                         (time_Parse lib DateOnly until)) of
              None \<Rightarrow> Inl (ErrFailedToParseUntil until)
            | Some parsed \<Rightarrow> Inr (Some parsed))
      else Inr None)"

text \<open>
  The response holds a pointer to the request, so it echoes the request as it is when
  the function returns: \<open>answer\<close> stores that state.
\<close>

definition answer :: "OAIPMHRequest \<Rightarrow> OAIPMHResponse \<Rightarrow> OAIPMHRequest \<times> OAIPMHResponse" where
  "answer req resp = (req, resp\<lparr>resp_Request := req\<rparr>)"

definition addError :: "OAIPMHResponse \<Rightarrow> string \<Rightarrow> string \<Rightarrow> OAIPMHResponse" where
  "addError resp code message = resp\<lparr>resp_Errors := Errors_Add (resp_Errors resp) code message\<rparr>"

definition getReqResp ::
  "golib \<Rightarrow> VLOHandler \<Rightarrow> url_Values \<Rightarrow> go_error + (OAIPMHRequest \<times> OAIPMHResponse)" where
  "getReqResp lib a argSource =
     (case url_JoinPath lib (basePath a) ''oai'' of
        None \<Rightarrow> Inl ErrFailedToPrepare
      | Some OAIURL \<Rightarrow>
         (let req = \<lparr>req_URL = OAIURL, req_Verb = [], req_Identifier = [],
                     req_MetadataPrefix = [], req_From = None, req_Until = None,
                     req_Set = [], req_ResumptionToken = []\<rparr>;
              resp = NewOAIPMHResponse lib req
          in if \<not> Has argSource ArgVerb
             then Inr (answer req (addError resp ErrorCodeBadArgument
                    (''Missing required argument `'' @ ArgVerb @ ''`'')))
             else
              (let req = req\<lparr>req_Verb := getTypedArg argSource ArgVerb\<rparr>
               in if \<not> Validate (req_Verb req)
                  then Inr (answer req (addError resp ErrorCodeBadVerb
                         (''Invalid verb `'' @ req_Verb req @ ''`'')))
                  else if ValidateRequiredArgs (req_Verb req) argSource \<noteq> []
                  then Inr (answer req (addError resp ErrorCodeBadArgument
                         (''Missing required argument `''
                          @ ValidateRequiredArgs (req_Verb req) argSource
                          @ ''` for verb `'' @ req_Verb req @ ''`'')))
                  else
                   (case find (\<lambda>k. \<not> ValidateArg (req_Verb req) k) (map fst argSource) of
                      Some k \<Rightarrow>
                        Inr (answer req (addError resp ErrorCodeBadArgument
                          (''Invalid argument `'' @ k @ ''` for verb `'' @ req_Verb req @ ''`'')))
                    | None \<Rightarrow>
                       (let req = req\<lparr>req_Identifier := getTypedArg argSource ArgIdentifier,
                                       req_MetadataPrefix := getTypedArg argSource ArgMetadataPrefix\<rparr>
                        in case parseFrom lib (getTypedArg argSource ArgFrom) of
                             Inl err \<Rightarrow> Inl err
                           | Inr from \<Rightarrow>
                              (case parseUntil lib (getTypedArg argSource ArgUntil) of
                                 Inl err \<Rightarrow> Inl err
                               | Inr until \<Rightarrow>
                                   Inr (answer
                                     (req\<lparr>req_From := from, req_Until := until,
                                          req_Set := getTypedArg argSource ArgSet,
                                          req_ResumptionToken :=
                                            getTypedArg argSource ArgResumptionToken\<rparr>)
                                     resp)))))))"

text \<open>
  What a handler does to the HTTP exchange: \<open>ctx.AbortWithStatus(code)\<close> sends the
  status alone; \<open>writeXMLResponse(ctx.Writer, code, resp)\<close> sends the status and the
  envelope. The calls made to the six operations of the hook are recorded in order.
\<close>

datatype http_result = AbortWithStatus int | XMLResponse int OAIPMHResponse

datatype hook_call =
    CallIdentify
  | CallGetRecord OAIPMHRequest
  | CallListIdentifiers OAIPMHRequest
  | CallListMetadataFormats OAIPMHRequest
  | CallListRecords OAIPMHRequest
  | CallListSets OAIPMHRequest

record handler_result =
  hr_calls :: "hook_call list"
  hr_response :: http_result

text \<open>Lines 254 to 259 of \<open>handleRequest\<close>, reached when the \<open>switch\<close> falls through.\<close>

definition finishRequest :: "OAIPMHResponse \<Rightarrow> OAIPMHErrors \<Rightarrow> int \<Rightarrow> http_result" where
  "finishRequest resp errors httpCode =
     (let resp = resp\<lparr>resp_Errors := resp_Errors resp @ errors\<rparr>
      in if httpCode \<ge> 400 \<and> \<not> HasErrors (resp_Errors resp)
         then AbortWithStatus httpCode
         else XMLResponse httpCode resp)"

definition handleRequest :: "VLOHandler \<Rightarrow> OAIPMHRequest \<Rightarrow> OAIPMHResponse \<Rightarrow> handler_result" where
  "handleRequest a req resp =
     (if req_Verb req = VerbIdentify then
        (let ans = hook_Identify (hook a)
         in \<lparr>hr_calls = [CallIdentify],
             hr_response = finishRequest
               (if NoError ans
                then resp\<lparr>resp_Identify := Some ((rw_Data ans)
                       \<lparr>idf_BaseURL := req_URL req,
                        idf_ProtocolVersion := resp_ProtocolVersion resp\<rparr>)\<rparr>
                else resp)
               (rw_Errors ans) (rw_HTTPCode ans)\<rparr>)
      else if req_Verb req = VerbGetRecord then
        (if req_MetadataPrefix req \<notin> set (SupportedMetadataPrefixes (hook a))
         then \<lparr>hr_calls = [],
               hr_response = XMLResponse 400
                 (addError resp ErrorCodeCannotDisseminateFormat ''Unknown metadata format'')\<rparr>
         else
           (let ans = hook_GetRecord (hook a) req
            in \<lparr>hr_calls = [CallGetRecord req],
                hr_response = finishRequest
                  (if NoError ans then resp\<lparr>resp_GetRecord := Some (rw_Data ans)\<rparr> else resp)
                  (rw_Errors ans) (rw_HTTPCode ans)\<rparr>))
      else if req_Verb req = VerbListIdentifiers then
        (if req_MetadataPrefix req \<notin> set (SupportedMetadataPrefixes (hook a))
         then \<lparr>hr_calls = [],
               hr_response = XMLResponse 400
                 (addError resp ErrorCodeCannotDisseminateFormat ''Unknown metadata format'')\<rparr>
         else if req_Set req \<noteq> [] \<and> \<not> SupportsSets (hook a)
         then \<lparr>hr_calls = [],
               hr_response = XMLResponse 501
                 (addError resp ErrorCodeNoSetHierarchy ''Sets functionality not implemented'')\<rparr>
         else
           (let ans = hook_ListIdentifiers (hook a) req
            in \<lparr>hr_calls = [CallListIdentifiers req],
                hr_response = finishRequest
                  (if NoError ans then resp\<lparr>resp_ListIdentifiers := Some (rw_Data ans)\<rparr> else resp)
                  (rw_Errors ans) (rw_HTTPCode ans)\<rparr>))
      else if req_Verb req = VerbListMetadataFormats then
        (let ans = hook_ListMetadataFormats (hook a) req
         in \<lparr>hr_calls = [CallListMetadataFormats req],
             hr_response = finishRequest
               (if NoError ans then resp\<lparr>resp_ListMetadataFormats := Some (rw_Data ans)\<rparr> else resp)
               (rw_Errors ans) (rw_HTTPCode ans)\<rparr>)
      else if req_Verb req = VerbListRecords then
        (if req_MetadataPrefix req \<notin> set (SupportedMetadataPrefixes (hook a))
         then \<lparr>hr_calls = [],
               hr_response = XMLResponse 400
                 (addError resp ErrorCodeCannotDisseminateFormat ''Unknown metadata format'')\<rparr>
         else if req_Set req \<noteq> [] \<and> \<not> SupportsSets (hook a)
         then \<lparr>hr_calls = [],
               hr_response = XMLResponse 501
                 (addError resp ErrorCodeNoSetHierarchy ''Sets functionality not implemented'')\<rparr>
         else
           (let ans = hook_ListRecords (hook a) req
            in \<lparr>hr_calls = [CallListRecords req],
                hr_response = finishRequest
                  (if NoError ans then resp\<lparr>resp_ListRecords := Some (rw_Data ans)\<rparr> else resp)
                  (rw_Errors ans) (rw_HTTPCode ans)\<rparr>))
      else if req_Verb req = VerbListSets then
        (if \<not> SupportsSets (hook a)
         then \<lparr>hr_calls = [],
               hr_response = XMLResponse 501
                 (addError resp ErrorCodeNoSetHierarchy ''Sets functionality not implemented'')\<rparr>
         else
           (let ans = hook_ListSets (hook a) req
            in \<lparr>hr_calls = [CallListSets req],
                hr_response = finishRequest
                  (if NoError ans then resp\<lparr>resp_ListSets := Some (rw_Data ans)\<rparr> else resp)
                  (rw_Errors ans) (rw_HTTPCode ans)\<rparr>))
      else
        \<lparr>hr_calls = [],
         hr_response = finishRequest
           (addError resp ErrorCodeBadArgument (''Verb not implemented `'' @ req_Verb req @ ''`''))
           [] 501\<rparr>)"

definition HandleOAIGet :: "golib \<Rightarrow> VLOHandler \<Rightarrow> url_Values \<Rightarrow> handler_result" where
  "HandleOAIGet lib a query =
     (case getReqResp lib a query of
        Inl err \<Rightarrow> \<lparr>hr_calls = [], hr_response = AbortWithStatus 500\<rparr>
      | Inr (req, resp) \<Rightarrow>
          if HasErrors (resp_Errors resp)
          then \<lparr>hr_calls = [], hr_response = XMLResponse 400 resp\<rparr>
          else handleRequest a req resp)"

text \<open>\<open>HandleOAIPost\<close>: \<open>None\<close> stands for a form that \<open>ParseForm\<close> rejects.\<close>

definition HandleOAIPost :: "golib \<Rightarrow> VLOHandler \<Rightarrow> url_Values option \<Rightarrow> handler_result" where
  "HandleOAIPost lib a postForm =
     (case postForm of
        None \<Rightarrow> \<lparr>hr_calls = [], hr_response = AbortWithStatus 500\<rparr>
      | Some form \<Rightarrow> HandleOAIGet lib a form)"

section \<open>The hook of the corpus repository (part 003: package cnchook)\<close>

record CNCHook =
  hook_conf :: Conf
  hook_db :: CNCMySQLHandler

definition Identify :: "CNCHook \<Rightarrow> OAIPMHIdentify ResultWrapper" where
  "Identify c =
     (let (earliestDatestamp, err) = GetFirstDate (hook_db c);
          result = NewResultWrapper
            \<lparr>idf_RepositoryName = ri_Name (conf_RepositoryInfo (hook_conf c)),
             idf_BaseURL = ri_BaseURL (conf_RepositoryInfo (hook_conf c)),
             idf_AdminEmail = ri_AdminEmail (conf_RepositoryInfo (hook_conf c)),
             idf_EarliestDatestamp = earliestDatestamp,
             idf_DeletedRecord = ''no'',
             idf_Granularity = ''YYYY-MM-DDThh:mm:ssZ'',
             idf_ProtocolVersion = []\<rparr>
      in if err \<noteq> None then result\<lparr>rw_HTTPCode := 500\<rparr> else result)"

definition ListMetadataFormats ::
  "CNCHook \<Rightarrow> OAIPMHRequest \<Rightarrow> OAIPMHMetadataFormat list ResultWrapper" where
  "ListMetadataFormats c req =
     (let ans = NewResultWrapper [GetDublinCoreFormat, GetCMDIFormat]
      in if req_Identifier req \<noteq> []
         then (case IdentifierExists (hook_db c) (req_Identifier req) of
                 Inl err \<Rightarrow> ans\<lparr>rw_HTTPCode := 500\<rparr>
               | Inr exists \<Rightarrow>
                   if \<not> exists
                   then ans\<lparr>rw_Errors := Errors_Add (rw_Errors ans) ErrorCodeIDDoesNotExist
                               (''Result for ID = '' @ req_Identifier req @ '' not found''),
                            rw_HTTPCode := 404\<rparr>
                   else ans)
         else ans)"

definition GetRecord :: "golib \<Rightarrow> CNCHook \<Rightarrow> OAIPMHRequest \<Rightarrow> OAIPMHRecord ResultWrapper" where
  "GetRecord lib c req =
     (let ans = NewResultWrapper emptyOAIPMHRecord
      in case GetRecordInfo lib (hook_db c) (req_Identifier req) of
           Inl err \<Rightarrow> ans\<lparr>rw_HTTPCode := 500\<rparr>
         | Inr None \<Rightarrow>
             ans\<lparr>rw_Errors := Errors_Add (rw_Errors ans) ErrorCodeIDDoesNotExist
                     (''Result for ID = '' @ req_Identifier req @ '' not found''),
                  rw_HTTPCode := 404\<rparr>
         | Inr (Some data) \<Rightarrow>
             if req_MetadataPrefix req = DublinCoreMetadataPrefix
             then ans\<lparr>rw_Data := dcRecordFromData lib data\<rparr>
             else if req_MetadataPrefix req = CMDIMetadataPrefix
             then ans\<lparr>rw_Data := cmdiLindatClarinRecordFromData lib (hook_conf c) data\<rparr>
             else ans\<lparr>rw_Errors := Errors_Add (rw_Errors ans) ErrorCodeCannotDisseminateFormat
                          ''Unknown metadata format'',
                       rw_HTTPCode := 400\<rparr>)"

text \<open>
  \<open>ListIdentifiers\<close> dereferences the header pointer of each converted record. Both
  conversions build their record with \<open>NewOAIPMHRecord\<close>, which always sets it.
\<close>

definition headersOf :: "OAIPMHRecord list \<Rightarrow> OAIPMHRecordHeader list" where
  "headersOf records = concat (map (\<lambda>r. case rec_Header r of Some h \<Rightarrow> [h] | None \<Rightarrow> []) records)"

definition ListIdentifiers ::
  "golib \<Rightarrow> CNCHook \<Rightarrow> OAIPMHRequest \<Rightarrow> OAIPMHRecordHeader list ResultWrapper" where
  "ListIdentifiers lib c req =
     (let ans = NewResultWrapper []
      in case ListRecordInfo lib (hook_db c) (req_From req) (req_Until req) of
           Inl err \<Rightarrow> ans\<lparr>rw_HTTPCode := 500\<rparr>
         | Inr data \<Rightarrow>
             if length data = 0
             then ans\<lparr>rw_Errors := Errors_Add (rw_Errors ans) ErrorCodeNoRecordsMatch ''No records''\<rparr>
             else if req_MetadataPrefix req = DublinCoreMetadataPrefix
             then ans\<lparr>rw_Data := rw_Data ans @ headersOf (map (dcRecordFromData lib) data)\<rparr>
             else if req_MetadataPrefix req = CMDIMetadataPrefix
             then ans\<lparr>rw_Data := rw_Data ans
                        @ headersOf (map (cmdiLindatClarinRecordFromData lib (hook_conf c)) data)\<rparr>
             else ans\<lparr>rw_Errors := Errors_Add (rw_Errors ans) ErrorCodeCannotDisseminateFormat
                          ''Unknown metadata format'',
                       rw_HTTPCode := 400\<rparr>)"

definition ListRecords ::
  "golib \<Rightarrow> CNCHook \<Rightarrow> OAIPMHRequest \<Rightarrow> OAIPMHRecord list ResultWrapper" where
  "ListRecords lib c req =
     (let ans = NewResultWrapper []
      in case ListRecordInfo lib (hook_db c) (req_From req) (req_Until req) of
           Inl err \<Rightarrow> ans\<lparr>rw_HTTPCode := 500\<rparr>
         | Inr data \<Rightarrow>
             if length data = 0
             then ans\<lparr>rw_Errors := Errors_Add (rw_Errors ans) ErrorCodeNoRecordsMatch ''No records''\<rparr>
             else if req_MetadataPrefix req = DublinCoreMetadataPrefix
             then ans\<lparr>rw_Data := rw_Data ans @ map (dcRecordFromData lib) data\<rparr>
             else if req_MetadataPrefix req = CMDIMetadataPrefix
             then ans\<lparr>rw_Data := rw_Data ans
                        @ map (cmdiLindatClarinRecordFromData lib (hook_conf c)) data\<rparr>
             else ans\<lparr>rw_Errors := Errors_Add (rw_Errors ans) ErrorCodeCannotDisseminateFormat
                          ''Unknown metadata format'',
                       rw_HTTPCode := 400\<rparr>)"

definition ListSets :: "CNCHook \<Rightarrow> OAIPMHRequest \<Rightarrow> OAIPMHSet list ResultWrapper" where
  "ListSets c req = NewResultWrapper []"

text \<open>\<open>CNCHook\<close> as a value of the interface \<open>VLOHook\<close>.\<close>

definition NewCNCHook :: "golib \<Rightarrow> Conf \<Rightarrow> CNCMySQLHandler \<Rightarrow> VLOHook" where
  "NewCNCHook lib conf db =
     (let c = \<lparr>hook_conf = conf, hook_db = db\<rparr>
      in \<lparr>hook_Identify = Identify c,
          hook_GetRecord = GetRecord lib c,
          hook_ListIdentifiers = ListIdentifiers lib c,
          hook_ListMetadataFormats = ListMetadataFormats c,
          hook_ListRecords = ListRecords lib c,
          hook_ListSets = ListSets c,
          SupportsSets = False,
          SupportedMetadataPrefixes = [DublinCoreMetadataPrefix, CMDIMetadataPrefix]\<rparr>)"

definition NewVLOHandler :: "string \<Rightarrow> VLOHook \<Rightarrow> VLOHandler" where
  "NewVLOHandler base h = \<lparr>basePath = base, hook = h\<rparr>"

section \<open>A reference instance of the library parameters\<close>

text \<open>
  The theorems below hold for every value of the library parameters. To run the model
  on concrete inputs, \<open>reflib\<close> fixes one: the two time layouts in their canonical
  forms (\<open>YYYY-MM-DD\<close>, and \<open>YYYY-MM-DDThh:mm:ss\<close> followed by \<open>Z\<close> or by an offset
  \<open>+hh:mm\<close> or \<open>-hh:mm\<close>) in the proleptic Gregorian calendar, a language registry of a
  few base languages and regions with \<open>_\<close> and \<open>-\<close> as separators, and the joining
  of a base path with one element.
\<close>

definition digitVal :: "char \<Rightarrow> nat option" where
  "digitVal c = (let n = (of_char c :: nat) in if 48 \<le> n \<and> n \<le> 57 then Some (n - 48) else None)"

fun parseUintAcc :: "nat \<Rightarrow> string \<Rightarrow> nat option" where
  "parseUintAcc x [] = Some x"
| "parseUintAcc x (c # cs) =
     (case digitVal c of None \<Rightarrow> None | Some d \<Rightarrow> parseUintAcc (x * 10 + d) cs)"

definition parseUint :: "string \<Rightarrow> nat \<Rightarrow> nat \<Rightarrow> nat option" where
  "parseUint s lo hi =
     (case parseUintAcc 0 s of
        None \<Rightarrow> None
      | Some x \<Rightarrow> if s = [] \<or> x < lo \<or> hi < x then None else Some x)"

definition isLeap :: "nat \<Rightarrow> bool" where
  "isLeap y = (y mod 4 = 0 \<and> (y mod 100 \<noteq> 0 \<or> y mod 400 = 0))"

definition daysIn :: "nat \<Rightarrow> nat \<Rightarrow> nat" where
  "daysIn m y =
     (if m = 2 then (if isLeap y then 29 else 28)
      else if m = 4 \<or> m = 6 \<or> m = 9 \<or> m = 11 then 30 else 31)"

text \<open>The number of days from 1970-01-01 to the given civil date.\<close>

definition daysFromCivil :: "int \<Rightarrow> int \<Rightarrow> int \<Rightarrow> int" where
  "daysFromCivil y m d =
     (let y' = (if m \<le> 2 then y - 1 else y);
          era = y' div 400;
          yoe = y' - era * 400;
          doy = (153 * (if m > 2 then m - 3 else m + 9) + 2) div 5 + d - 1;
          doe = yoe * 365 + yoe div 4 - yoe div 100 + doy
      in era * 146097 + doe - 719468)"

definition civilFromDays :: "int \<Rightarrow> int \<times> int \<times> int" where
  "civilFromDays z =
     (let z' = z + 719468;
          era = z' div 146097;
          doe = z' - era * 146097;
          yoe = (doe - doe div 1460 + doe div 36524 - doe div 146096) div 365;
          doy = doe - (365 * yoe + yoe div 4 - yoe div 100);
          mp = (5 * doy + 2) div 153;
          d = doy - (153 * mp + 2) div 5 + 1;
          m = (if mp < 10 then mp + 3 else mp - 9)
      in ((yoe + era * 400) + (if m \<le> 2 then 1 else 0), m, d))"

definition secondsOf :: "nat \<Rightarrow> nat \<Rightarrow> nat \<Rightarrow> nat \<Rightarrow> nat \<Rightarrow> nat \<Rightarrow> int" where
  "secondsOf y m d hh mm ss =
     daysFromCivil (int y) (int m) (int d) * 86400 + int hh * 3600 + int mm * 60 + int ss"

definition refParseDate :: "string \<Rightarrow> (nat \<times> nat \<times> nat) option" where
  "refParseDate s =
     (if length s = 10 \<and> s ! 4 = CHR ''-'' \<and> s ! 7 = CHR ''-''
      then (case (parseUint (take 4 s) 0 9999, parseUint (take 2 (drop 5 s)) 1 12) of
              (Some y, Some m) \<Rightarrow>
                (case parseUint (take 2 (drop 8 s)) 1 (daysIn m y) of
                   Some d \<Rightarrow> Some (y, m, d)
                 | None \<Rightarrow> None)
            | _ \<Rightarrow> None)
      else None)"

definition refParseClock :: "string \<Rightarrow> int option" where
  "refParseClock s =
     (if length s = 8 \<and> s ! 2 = CHR '':'' \<and> s ! 5 = CHR '':''
      then (case (parseUint (take 2 s) 0 23, parseUint (take 2 (drop 3 s)) 0 59,
                  parseUint (take 2 (drop 6 s)) 0 59) of
              (Some hh, Some mm, Some ss) \<Rightarrow> Some (int hh * 3600 + int mm * 60 + int ss)
            | _ \<Rightarrow> None)
      else None)"

definition refParseZone :: "string \<Rightarrow> int option" where
  "refParseZone s =
     (if s = ''Z'' then Some 0
      else if length s = 6 \<and> (s ! 0 = CHR ''+'' \<or> s ! 0 = CHR ''-'') \<and> s ! 3 = CHR '':''
      then (case (parseUint (take 2 (drop 1 s)) 0 23, parseUint (take 2 (drop 4 s)) 0 59) of
              (Some hh, Some mm) \<Rightarrow>
                Some ((if s ! 0 = CHR ''-'' then - 1 else 1) * (int hh * 3600 + int mm * 60))
            | _ \<Rightarrow> None)
      else None)"

definition refTimeParse :: "layout \<Rightarrow> string \<Rightarrow> time option" where
  "refTimeParse l s =
     (case l of
        DateOnly \<Rightarrow>
          (case refParseDate s of
             Some (y, m, d) \<Rightarrow> Some (secondsOf y m d 0 0 0 * 1000000000)
           | None \<Rightarrow> None)
      | RFC3339 \<Rightarrow>
          (if length s \<ge> 20 \<and> s ! 10 = CHR ''T''
           then (case (refParseDate (take 10 s), refParseClock (take 8 (drop 11 s)),
                       refParseZone (drop 19 s)) of
                   (Some (y, m, d), Some clock, Some zone) \<Rightarrow>
                     Some ((secondsOf y m d 0 0 0 + clock - zone) * 1000000000)
                 | _ \<Rightarrow> None)
           else None))"

definition pad :: "nat \<Rightarrow> string \<Rightarrow> string" where
  "pad n s = replicate (n - length s) CHR ''0'' @ s"

definition refTimeFormat :: "time \<Rightarrow> string" where
  "refTimeFormat t =
     (let secs = t div 1000000000;
          (y, m, d) = civilFromDays (secs div 86400);
          clock = secs mod 86400
      in pad 4 (fmt_Sprint_int y) @ ''-'' @ pad 2 (fmt_Sprint_int m) @ ''-''
         @ pad 2 (fmt_Sprint_int d) @ ''T'' @ pad 2 (fmt_Sprint_int (clock div 3600)) @ '':''
         @ pad 2 (fmt_Sprint_int (clock mod 3600 div 60)) @ '':''
         @ pad 2 (fmt_Sprint_int (clock mod 60)) @ ''Z'')"

definition refLanguages :: "(string \<times> string) list" where
  "refLanguages = [(''en'', ''English''), (''cs'', ''Czech''), (''de'', ''German''),
     (''sk'', ''Slovak''), (''pl'', ''Polish''), (''fr'', ''French'')]"

definition refRegions :: "string list" where
  "refRegions = [''US'', ''GB'', ''CZ'', ''DE'', ''SK'', ''PL'', ''FR'']"

definition refLanguageParse :: "string \<Rightarrow> language_Tag option" where
  "refLanguageParse s =
     (case strings_Split (map (\<lambda>c. if c = CHR ''_'' then CHR ''-'' else c) s) ''-'' of
        [l] \<Rightarrow> if l \<in> set (map fst refLanguages)
                then Some \<lparr>tag_Base = l, tag_Region = []\<rparr> else None
      | [l, r] \<Rightarrow> if l \<in> set (map fst refLanguages) \<and> r \<in> set refRegions
                   then Some \<lparr>tag_Base = l, tag_Region = r\<rparr> else None
      | _ \<Rightarrow> None)"

definition refDisplayName :: "string \<Rightarrow> string" where
  "refDisplayName b = (case map_of refLanguages b of Some n \<Rightarrow> n | None \<Rightarrow> [])"

definition refJoinPath :: "string \<Rightarrow> string \<Rightarrow> string option" where
  "refJoinPath base elem =
     (if base \<noteq> [] \<and> last base = CHR ''/'' then Some (base @ elem) else Some (base @ ''/'' @ elem))"

definition reflib :: golib where
  "reflib = \<lparr>url_JoinPath = refJoinPath, time_Now = 0, time_Parse = refTimeParse,
     time_Format_RFC3339 = refTimeFormat, language_Parse = refLanguageParse,
     display_Name = refDisplayName\<rparr>"

section \<open>The argument grammar in the words of the specification\<close>

text \<open>
  Section 4.1 of the specification: the six verbs and, for each, the arguments it
  requires and the arguments it allows beyond \<open>verb\<close>.
\<close>

definition spec_verbs :: "string list" where
  "spec_verbs = [''Identify'', ''GetRecord'', ''ListMetadataFormats'', ''ListIdentifiers'',
     ''ListRecords'', ''ListSets'']"

definition spec_required :: "string \<Rightarrow> string list" where
  "spec_required v =
     (if v = ''GetRecord'' then [''identifier'', ''metadataPrefix'']
      else if v = ''ListIdentifiers'' \<or> v = ''ListRecords'' then [''metadataPrefix'']
      else [])"

definition spec_allowed :: "string \<Rightarrow> string list" where
  "spec_allowed v =
     (if v = ''GetRecord'' then [''identifier'', ''metadataPrefix'']
      else if v = ''ListMetadataFormats'' then [''identifier'']
      else if v = ''ListIdentifiers'' \<or> v = ''ListRecords''
      then [''metadataPrefix'', ''from'', ''until'', ''set'', ''resumptionToken'']
      else if v = ''ListSets'' then [''resumptionToken'']
      else [])"

text \<open>The four conditions of the grammar on a raw parameter map.\<close>

definition spec_wellFormed :: "url_Values \<Rightarrow> bool" where
  "spec_wellFormed args =
     (Has args ''verb'' \<and> Get args ''verb'' \<in> set spec_verbs
      \<and> (\<forall>arg \<in> set (spec_required (Get args ''verb'')). Has args arg)
      \<and> (\<forall>k \<in> set (map fst args). k = ''verb'' \<or> k \<in> set (spec_allowed (Get args ''verb''))))"

text \<open>The protocol errors that the validator returns; \<open>None\<close> when it returns a Go
  error and neither request nor response.\<close>

definition protocolErrors ::
  "go_error + (OAIPMHRequest \<times> OAIPMHResponse) \<Rightarrow> OAIPMHErrors option" where
  "protocolErrors r = (case r of Inl err \<Rightarrow> None | Inr (req, resp) \<Rightarrow> Some (resp_Errors resp))"

definition datesParse :: "golib \<Rightarrow> url_Values \<Rightarrow> bool" where
  "datesParse lib args =
     ((\<exists>from. parseFrom lib (Get args ''from'') = Inr from)
      \<and> (\<exists>until. parseUntil lib (Get args ''until'') = Inr until))"

section \<open>An example installation\<close>

text \<open>A configuration and an empty repository, to run the handler on concrete requests.\<close>

definition exampleConf :: Conf where
  "exampleConf =
     \<lparr>conf_RepositoryInfo = \<lparr>ri_Name = ''CNC'', ri_BaseURL = ''https://vlo.korpus.cz'',
                              ri_AdminEmail = []\<rparr>,
      conf_Publisher = ''CNC''\<rparr>"

definition dbWith :: "ScannedRow list \<Rightarrow> CNCMySQLHandler" where
  "dbWith rows =
     \<lparr>conn = \<lparr>db_FirstDate = SqlOk 0, db_IdentifierExists = (\<lambda>identifier pid. SqlErrNoRows),
               db_RecordInfo = (\<lambda>identifier pid. SqlErrNoRows), db_ListFails = False,
               db_Rows = rows\<rparr>,
      publicCorplistID = 1\<rparr>"

definition exampleHandler :: "ScannedRow list \<Rightarrow> VLOHandler" where
  "exampleHandler rows =
     NewVLOHandler ''https://vlo.korpus.cz'' (NewCNCHook reflib exampleConf (dbWith rows))"

definition exampleRequest :: "string \<Rightarrow> string \<Rightarrow> string \<Rightarrow> OAIPMHRequest" where
  "exampleRequest v identifier prefix =
     \<lparr>req_URL = ''https://vlo.korpus.cz/oai'', req_Verb = v, req_Identifier = identifier,
      req_MetadataPrefix = prefix, req_From = None, req_Until = None, req_Set = [],
      req_ResumptionToken = []\<rparr>"

text \<open>A row of the repository: a service record, not deleted, with the given identifier
  and time of last modification.\<close>

definition exampleRow :: "int \<Rightarrow> time \<Rightarrow> ScannedRow" where
  "exampleRow i t =
     \<lparr>sr_Data = zeroDBData\<lparr>ID := i, Date := t, Type := ''service''\<rparr>,
      sr_Locale = NullString_null, sr_Deleted = False, sr_CorplistID = None,
      sr_ParallelCorplistID = None\<rparr>"

section \<open>Observations on a response\<close>

text \<open>How many of the six result fields of a response are set, and whether the field
  that belongs to a verb is set.\<close>

definition payloadCount :: "OAIPMHResponse \<Rightarrow> nat" where
  "payloadCount resp =
     (if resp_Identify resp \<noteq> None then 1 else 0)
     + (if resp_GetRecord resp \<noteq> None then 1 else 0)
     + (if resp_ListMetadataFormats resp \<noteq> None then 1 else 0)
     + (if resp_ListIdentifiers resp \<noteq> None then 1 else 0)
     + (if resp_ListRecords resp \<noteq> None then 1 else 0)
     + (if resp_ListSets resp \<noteq> None then 1 else 0)"

definition payloadOfVerb :: "string \<Rightarrow> OAIPMHResponse \<Rightarrow> bool" where
  "payloadOfVerb v resp =
     ((v = VerbIdentify \<and> resp_Identify resp \<noteq> None)
      \<or> (v = VerbGetRecord \<and> resp_GetRecord resp \<noteq> None)
      \<or> (v = VerbListMetadataFormats \<and> resp_ListMetadataFormats resp \<noteq> None)
      \<or> (v = VerbListIdentifiers \<and> resp_ListIdentifiers resp \<noteq> None)
      \<or> (v = VerbListRecords \<and> resp_ListRecords resp \<noteq> None)
      \<or> (v = VerbListSets \<and> resp_ListSets resp \<noteq> None))"

text \<open>The error list and the HTTP code of the result wrapper that the operation of the
  request's verb returns.\<close>

definition wrapperReport :: "VLOHook \<Rightarrow> OAIPMHRequest \<Rightarrow> OAIPMHErrors \<times> int" where
  "wrapperReport h req =
     (if req_Verb req = VerbIdentify
      then (rw_Errors (hook_Identify h), rw_HTTPCode (hook_Identify h))
      else if req_Verb req = VerbGetRecord
      then (rw_Errors (hook_GetRecord h req), rw_HTTPCode (hook_GetRecord h req))
      else if req_Verb req = VerbListIdentifiers
      then (rw_Errors (hook_ListIdentifiers h req), rw_HTTPCode (hook_ListIdentifiers h req))
      else if req_Verb req = VerbListMetadataFormats
      then (rw_Errors (hook_ListMetadataFormats h req),
            rw_HTTPCode (hook_ListMetadataFormats h req))
      else if req_Verb req = VerbListRecords
      then (rw_Errors (hook_ListRecords h req), rw_HTTPCode (hook_ListRecords h req))
      else (rw_Errors (hook_ListSets h req), rw_HTTPCode (hook_ListSets h req)))"

text \<open>A property of the request and the response that the validator returns, when it
  returns them.\<close>

definition onAnswer ::
  "(OAIPMHRequest \<Rightarrow> OAIPMHResponse \<Rightarrow> bool)
   \<Rightarrow> go_error + (OAIPMHRequest \<times> OAIPMHResponse) \<Rightarrow> bool" where
  "onAnswer P r = (case r of Inl err \<Rightarrow> True | Inr (req, resp) \<Rightarrow> P req resp)"

text \<open>
  The envelope invariant for the verb \<open>v\<close>: when an envelope is written, either its
  error list is empty and exactly the result field of \<open>v\<close> is set, or its error list is
  not empty and no result field is set. A bare status carries no envelope.
\<close>

definition envelopeOK :: "string \<Rightarrow> http_result \<Rightarrow> bool" where
  "envelopeOK v r =
     (case r of
        AbortWithStatus code \<Rightarrow> True
      | XMLResponse code resp \<Rightarrow>
          if resp_Errors resp = [] then payloadCount resp = 1 \<and> payloadOfVerb v resp
          else payloadCount resp = 0)"


section \<open>Properties of the string functions\<close>

lemmas ErrorCode_defs = ErrorCodeBadArgument_def ErrorCodeBadResumptionToken_def
  ErrorCodeBadVerb_def ErrorCodeCannotDisseminateFormat_def ErrorCodeIDDoesNotExist_def
  ErrorCodeNoRecordsMatch_def ErrorCodeNoMetadataFormats_def ErrorCodeNoSetHierarchy_def

lemmas Arg_defs = ArgVerb_def ArgIdentifier_def ArgMetadataPrefix_def ArgFrom_def
  ArgUntil_def ArgSet_def ArgResumptionToken_def

lemmas Verb_defs = VerbIdentify_def VerbGetRecord_def VerbListIdentifiers_def
  VerbListMetadataFormats_def VerbListRecords_def VerbListSets_def

lemma splitOn_nonempty: "splitOn sep cur s \<noteq> []"
  by (induction sep cur s rule: splitOn.induct) auto

lemma strings_Split_nonempty: "sep \<noteq> [] \<Longrightarrow> strings_Split s sep \<noteq> []"
  by (simp add: strings_Split_def splitOn_nonempty)

lemma splitOn_no_sep: "c \<notin> set s \<Longrightarrow> splitOn [c] cur s = [rev cur @ s]"
  by (induction s arbitrary: cur) (auto simp: strings_HasPrefix_def)

lemma splitOn_first_sep:
  "c \<in> set s \<Longrightarrow>
   splitOn [c] cur s =
     (rev cur @ takeWhile (\<lambda>x. x \<noteq> c) s) # splitOn [c] [] (tl (dropWhile (\<lambda>x. x \<noteq> c) s))"
  by (induction s arbitrary: cur) (auto simp: strings_HasPrefix_def)

lemma splitOn_hd: "hd (splitOn [c] [] s) = takeWhile (\<lambda>x. x \<noteq> c) s"
proof (cases "c \<in> set s")
  case True
  then show ?thesis by (simp add: splitOn_first_sep)
next
  case False
  then have tw: "takeWhile (\<lambda>x. x \<noteq> c) s = s" by (induction s) auto
  have "splitOn [c] [] s = [s]" using False by (simp add: splitOn_no_sep)
  then have "hd (splitOn [c] [] s) = s" by simp
  then show ?thesis by (simp only: tw)
qed

section \<open>The locale parser\<close>

text \<open>When the direct parse of the part before the first dot fails, the result is
  decided by the split of the whole string at the underscores.\<close>

lemma parseLocale_direct_fails:
  assumes "language_Parse lib (hd (strings_Split loc ''.'')) = None"
  shows "parseLocale lib loc =
     (if length (strings_Split loc ''_'') \<noteq> 2 then Inl (ErrUnableToParseLocale loc)
      else (case language_Parse lib (strings_Split loc ''_'' ! 0) of
              Some ans \<Rightarrow> Inr ans
            | None \<Rightarrow> Inl (ErrLanguageParse (strings_Split loc ''_'' ! 0))))"
proof -
  obtain b rest where b: "strings_Split loc ''.'' = b # rest"
    using strings_Split_nonempty[of "''.''" loc] by (cases "strings_Split loc ''.''") auto
  have f: "localeFallbackParts loc = strings_Split loc ''_''"
    using strings_Split_nonempty[of "''_''" loc] by (simp add: localeFallbackParts_def Let_def)
  show ?thesis using assms b f by (simp add: parseLocale_def Let_def)
qed

text \<open>
  Claim C8. Applied to \<open>en_EN\<close>, which the tag library rejects for its region, the
  locale parser returns without error the tag that the library gives for the first
  component \<open>en\<close> alone; applied to \<open>xx_YY_ZZ\<close>, which the library rejects and whose
  split at the underscores has three components, it returns the error
  "unable to parse locale".
\<close>

theorem parseLocale_en_EN_and_xx_YY_ZZ:
  "(language_Parse lib ''en_EN'' = None \<and> language_Parse lib ''en'' = Some tag \<longrightarrow>
      parseLocale lib ''en_EN'' = Inr tag)
   \<and> (language_Parse lib ''xx_YY_ZZ'' = None \<longrightarrow>
      parseLocale lib ''xx_YY_ZZ'' = Inl (ErrUnableToParseLocale ''xx_YY_ZZ''))"
proof -
  have a: "strings_Split ''en_EN'' ''.'' = [''en_EN'']" by code_simp
  have b: "strings_Split ''en_EN'' ''_'' = [''en'', ''EN'']" by code_simp
  have c: "strings_Split ''xx_YY_ZZ'' ''.'' = [''xx_YY_ZZ'']" by code_simp
  have d: "strings_Split ''xx_YY_ZZ'' ''_'' = [''xx'', ''YY'', ''ZZ'']" by code_simp
  show ?thesis
    by (simp add: parseLocale_direct_fails a b c d)
qed

theorem parseLocale_en_EN_and_xx_YY_ZZ_witness:
  "language_Parse reflib ''en_EN'' = None
   \<and> language_Parse reflib ''en'' = Some \<lparr>tag_Base = ''en'', tag_Region = []\<rparr>
   \<and> parseLocale reflib ''en_EN'' = Inr \<lparr>tag_Base = ''en'', tag_Region = []\<rparr>
   \<and> language_Parse reflib ''xx_YY_ZZ'' = None
   \<and> parseLocale reflib ''xx_YY_ZZ'' = Inl (ErrUnableToParseLocale ''xx_YY_ZZ'')"
proof -
  have h1: "language_Parse reflib ''en_EN'' = None" by code_simp
  have h2: "language_Parse reflib ''en'' = Some \<lparr>tag_Base = ''en'', tag_Region = []\<rparr>"
    by code_simp
  have h3: "language_Parse reflib ''xx_YY_ZZ'' = None" by code_simp
  from parseLocale_en_EN_and_xx_YY_ZZ[of reflib "\<lparr>tag_Base = ''en'', tag_Region = []\<rparr>"] h1 h2 h3
  show ?thesis by blast
qed

text \<open>
  Claim C10. Splitting a string at \<open>_\<close> never gives zero components, so the guard
  \<open>len(tmp) == 0\<close> is never satisfied and the fallback always works on the split at
  \<open>_\<close>: the split at \<open>-\<close> is never used. Hence, when the direct parse fails, the locale
  is accepted only if its split at \<open>_\<close> has exactly two components, and a locale
  without any \<open>_\<close> (one that separates with \<open>-\<close> only, for instance) always gives the
  error "unable to parse locale".
\<close>

theorem locale_dash_branch_unreachable:
  "length (strings_Split loc ''_'') \<noteq> 0
   \<and> localeFallbackParts loc = strings_Split loc ''_''
   \<and> (language_Parse lib (hd (strings_Split loc ''.'')) = None \<longrightarrow>
        ((\<exists>tag. parseLocale lib loc = Inr tag) \<longrightarrow> length (strings_Split loc ''_'') = 2)
        \<and> (CHR ''_'' \<notin> set loc \<longrightarrow> parseLocale lib loc = Inl (ErrUnableToParseLocale loc)))"
proof -
  have ne: "strings_Split loc ''_'' \<noteq> []" by (simp add: strings_Split_nonempty)
  have one: "CHR ''_'' \<notin> set loc \<Longrightarrow> strings_Split loc ''_'' = [loc]"
    by (simp add: strings_Split_def splitOn_no_sep)
  show ?thesis
    using ne one
    by (auto simp: localeFallbackParts_def Let_def parseLocale_direct_fails
             split: if_splits option.splits)
qed

theorem locale_dash_branch_unreachable_witness:
  "language_Parse reflib (hd (strings_Split ''en-EN'' ''.'')) = None
   \<and> CHR ''_'' \<notin> set ''en-EN''
   \<and> parseLocale reflib ''en-EN'' = Inl (ErrUnableToParseLocale ''en-EN'')
   \<and> language_Parse reflib (hd (strings_Split ''en_EN.UTF-8'' ''.'')) = None
   \<and> (\<exists>tag. parseLocale reflib ''en_EN.UTF-8'' = Inr tag)
   \<and> length (strings_Split ''en_EN.UTF-8'' ''_'') = 2"
proof -
  have h1: "language_Parse reflib (hd (strings_Split ''en-EN'' ''.'')) = None" by code_simp
  have h2: "CHR ''_'' \<notin> set ''en-EN''" by simp
  have h3: "language_Parse reflib (hd (strings_Split ''en_EN.UTF-8'' ''.'')) = None" by code_simp
  have h4: "parseLocale reflib ''en_EN.UTF-8'' = Inr \<lparr>tag_Base = ''en'', tag_Region = []\<rparr>"
    by code_simp
  from locale_dash_branch_unreachable[of "''en-EN''" reflib] h1 h2
  have c1: "parseLocale reflib ''en-EN'' = Inl (ErrUnableToParseLocale ''en-EN'')" by blast
  from locale_dash_branch_unreachable[of "''en_EN.UTF-8''" reflib] h3 h4
  have c2: "length (strings_Split ''en_EN.UTF-8'' ''_'') = 2" by blast
  from h1 h2 h3 h4 c1 c2 show ?thesis by blast
qed

section \<open>The author list parser\<close>

lemma appendAuthor_spec: "appendAuthor authors line = authors @ [authorOfLine line]"
proof (cases "CHR '' '' \<in> set (strings_Trim line '' '')")
  case True
  let ?t = "strings_Trim line '' ''"
  let ?r = "splitOn '' '' [] (tl (dropWhile (\<lambda>x. x \<noteq> CHR '' '') ?t))"
  have s: "strings_Split ?t '' '' = takeWhile (\<lambda>x. x \<noteq> CHR '' '') ?t # ?r"
    using True by (simp add: strings_Split_def splitOn_first_sep)
  have r: "?r \<noteq> []" by (rule splitOn_nonempty)
  then have len: "length (strings_Split ?t '' '') > 1" using s by (cases ?r) auto
  have snd: "strings_Split ?t '' '' ! 1 = hd ?r" using s r by (simp add: hd_conv_nth)
  show ?thesis
    using True len snd s
    by (simp add: appendAuthor_def authorOfLine_def Let_def splitOn_hd)
next
  case False
  then have "strings_Split (strings_Trim line '' '') '' '' = [strings_Trim line '' '']"
    by (simp add: strings_Split_def splitOn_no_sep)
  with False show ?thesis
    by (simp add: appendAuthor_def authorOfLine_def Let_def)
qed

lemma authorsLoop_spec: "authorsLoop authors ls = authors @ map authorOfLine ls"
  by (induction ls arbitrary: authors) (simp_all add: appendAuthor_spec)

lemma getAuthorList_map: "getAuthorList data = map authorOfLine (authorLines data)"
  by (simp add: getAuthorList_def authorLines_def authorsLoop_spec)

text \<open>
  Claim C7. The claim says that a line with zero tokens is skipped and produces no
  author, and the chain \<open>if len(sAuthor) == 1 ... else if len(sAuthor) > 1\<close> of the
  source leaves exactly that case out. The code does not skip it: \<open>strings.Split\<close>
  never returns zero pieces, so a blank line gives an author whose names are both
  empty. The empty author block, which the database triggers store for a new corpus,
  gives one such author and a blank creator element in the Dublin Core document; a
  blank line between two authors gives a third author.
\<close>

theorem getAuthorList_blank_line_author:
  "getAuthorList (zeroDBData\<lparr>Authors := []\<rparr>) = [\<lparr>LastName = [], FirstName = []\<rparr>]
   \<and> dc_Creator (dcMetadataFromData reflib (zeroDBData\<lparr>Authors := []\<rparr>)) =
       [\<lparr>me_Value = [], me_Lang = []\<rparr>]
   \<and> getAuthorList (zeroDBData\<lparr>Authors := ''Doe'' @ LF @ LF @ ''Jane Smith''\<rparr>) =
       [\<lparr>LastName = ''Doe'', FirstName = []\<rparr>, \<lparr>LastName = [], FirstName = []\<rparr>,
        \<lparr>LastName = ''Smith'', FirstName = ''Jane''\<rparr>]"
  by code_simp

section \<open>The Dublin Core conversion\<close>

text \<open>
  Claim C6, as amended. For every record whose Czech description is absent (NULL in
  the database) and whose English description is present, the Dublin Core conversion
  emits exactly one description element, tagged \<open>en\<close>. More generally, an absent
  description is omitted, and a present one is emitted with its text, the Czech one
  before the English one, also when that text is the empty string.
\<close>

theorem dc_description_elements:
  "dc_Description (dcMetadataFromData lib data) =
     (if ns_Valid (DescCS data)
      then [\<lparr>me_Value = ns_String (DescCS data), me_Lang = ''cs''\<rparr>] else [])
     @ (if ns_Valid (DescEN data)
        then [\<lparr>me_Value = ns_String (DescEN data), me_Lang = ''en''\<rparr>] else [])
   \<and> (\<not> ns_Valid (DescCS data) \<and> ns_Valid (DescEN data) \<longrightarrow>
        dc_Description (dcMetadataFromData lib data) =
          [\<lparr>me_Value = ns_String (DescEN data), me_Lang = ''en''\<rparr>])
   \<and> rec_Metadata (dcRecordFromData lib data) = Some (DCValue (dcMetadataFromData lib data))"
  by (simp add: dcMetadataFromData_def dcRecordFromData_def setHeader_def NewOAIPMHRecord_def
      NewDublinCore_def Add_def Let_def split: option.splits)

theorem dc_description_elements_witness:
  "\<not> ns_Valid (DescCS (zeroDBData\<lparr>DescEN := \<lparr>ns_String = ''A corpus'', ns_Valid = True\<rparr>\<rparr>))
   \<and> ns_Valid (DescEN (zeroDBData\<lparr>DescEN := \<lparr>ns_String = ''A corpus'', ns_Valid = True\<rparr>\<rparr>))
   \<and> dc_Description (dcMetadataFromData reflib
        (zeroDBData\<lparr>DescEN := \<lparr>ns_String = ''A corpus'', ns_Valid = True\<rparr>\<rparr>)) =
      [\<lparr>me_Value = ''A corpus'', me_Lang = ''en''\<rparr>]"
  using dc_description_elements
    [of reflib "zeroDBData\<lparr>DescEN := \<lparr>ns_String = ''A corpus'', ns_Valid = True\<rparr>\<rparr>"]
  by (simp add: zeroDBData_def NullString_null_def)

text \<open>
  Claim C6 as stated fails: a Czech description that is present but empty is emitted
  as a blank element, so the record has two description elements.
\<close>

theorem dc_blank_description_counterexample:
  "dc_Description (dcMetadataFromData reflib
     (zeroDBData\<lparr>DescCS := \<lparr>ns_String = [], ns_Valid = True\<rparr>,
                  DescEN := \<lparr>ns_String = ''A corpus'', ns_Valid = True\<rparr>\<rparr>)) =
     [\<lparr>me_Value = [], me_Lang = ''cs''\<rparr>, \<lparr>me_Value = ''A corpus'', me_Lang = ''en''\<rparr>]"
  by code_simp

section \<open>Request validation\<close>

lemma Validate_spec: "Validate v \<longleftrightarrow> v \<in> set spec_verbs"
  by (auto simp: Validate_def spec_verbs_def Verb_defs)

lemma reqArgs_spec: "reqArgs v = ''verb'' # spec_required v"
  by (simp add: reqArgs_def spec_required_def Verb_defs Arg_defs)

lemma ValidateArg_spec:
  "Validate v \<Longrightarrow> ValidateArg v k \<longleftrightarrow> (k = ''verb'' \<or> k \<in> set (spec_allowed v))"
  by (auto simp: Validate_def ValidateArg_def spec_allowed_def Verb_defs Arg_defs)

lemma ValidateRequiredArgs_empty:
  "Has args ''verb'' \<Longrightarrow>
   ValidateRequiredArgs v args = [] \<longleftrightarrow> (\<forall>arg \<in> set (spec_required v). Has args arg)"
  by (auto simp: ValidateRequiredArgs_def reqArgs_spec spec_required_def
           split: option.splits if_splits)

lemma ValidateRequiredArgs_missing:
  "Has args ''verb'' \<Longrightarrow> ValidateRequiredArgs v args \<noteq> [] \<Longrightarrow>
   ValidateRequiredArgs v args \<in> set (spec_required v)
   \<and> \<not> Has args (ValidateRequiredArgs v args)"
  by (auto simp: ValidateRequiredArgs_def reqArgs_spec spec_required_def
           split: option.splits if_splits)

lemma protocolErrors_answer:
  "protocolErrors (Inr (answer req resp)) = Some (resp_Errors resp)"
  by (simp add: protocolErrors_def answer_def)

lemma resp_Errors_addError:
  "resp_Errors (addError resp code msg) = resp_Errors resp @ [\<lparr>err_Code = code, err_Message = msg\<rparr>]"
  by (simp add: addError_def Errors_Add_def)

lemma getReqResp_errors:
  assumes "url_JoinPath lib (basePath a) ''oai'' = Some u"
  shows "protocolErrors (getReqResp lib a args) =
     (if \<not> Has args ''verb''
      then Some [\<lparr>err_Code = ''badArgument'', err_Message = ''Missing required argument `verb`''\<rparr>]
      else if \<not> Validate (Get args ''verb'')
      then Some [\<lparr>err_Code = ''badVerb'',
                  err_Message = ''Invalid verb `'' @ Get args ''verb'' @ ''`''\<rparr>]
      else if ValidateRequiredArgs (Get args ''verb'') args \<noteq> []
      then Some [\<lparr>err_Code = ''badArgument'',
                  err_Message = ''Missing required argument `''
                    @ ValidateRequiredArgs (Get args ''verb'') args
                    @ ''` for verb `'' @ Get args ''verb'' @ ''`''\<rparr>]
      else (case find (\<lambda>k. \<not> ValidateArg (Get args ''verb'') k) (map fst args) of
              Some k \<Rightarrow>
                Some [\<lparr>err_Code = ''badArgument'',
                       err_Message = ''Invalid argument `'' @ k @ ''` for verb `''
                         @ Get args ''verb'' @ ''`''\<rparr>]
            | None \<Rightarrow>
                (case parseFrom lib (Get args ''from'') of
                   Inl err \<Rightarrow> None
                 | Inr from \<Rightarrow>
                     (case parseUntil lib (Get args ''until'') of
                        Inl err \<Rightarrow> None
                      | Inr until \<Rightarrow> Some []))))"
  using assms
  by (simp add: getReqResp_def Let_def getTypedArg_def protocolErrors_answer
        resp_Errors_addError NewOAIPMHResponse_def Arg_defs ErrorCode_defs
        split: option.splits sum.splits)
     (simp add: protocolErrors_def)

lemma find_invalid_None:
  "Validate v \<Longrightarrow>
   find (\<lambda>k. \<not> ValidateArg v k) (map fst args) = None
     \<longleftrightarrow> (\<forall>k \<in> set (map fst args). k = ''verb'' \<or> k \<in> set (spec_allowed v))"
  by (simp add: find_None_iff ValidateArg_spec)

lemma find_invalid_Some:
  "Validate v \<Longrightarrow> find (\<lambda>k. \<not> ValidateArg v k) (map fst args) = Some k \<Longrightarrow>
   k \<in> set (map fst args) \<and> k \<noteq> ''verb'' \<and> k \<notin> set (spec_allowed v)"
  by (auto simp: find_Some_iff ValidateArg_spec)

lemma getReqResp_success:
  assumes "url_JoinPath lib (basePath a) ''oai'' = Some u"
    and "spec_wellFormed args"
    and "parseFrom lib (Get args ''from'') = Inr from"
    and "parseUntil lib (Get args ''until'') = Inr until"
  shows "\<exists>resp. resp_Errors resp = [] \<and>
     getReqResp lib a args =
       Inr (\<lparr>req_URL = u, req_Verb = Get args ''verb'',
             req_Identifier = Get args ''identifier'',
             req_MetadataPrefix = Get args ''metadataPrefix'',
             req_From = from, req_Until = until, req_Set = Get args ''set'',
             req_ResumptionToken = Get args ''resumptionToken''\<rparr>, resp)"
proof -
  from assms(2) have h: "Has args ''verb''" and v: "Validate (Get args ''verb'')"
    and r: "ValidateRequiredArgs (Get args ''verb'') args = []"
    and f: "find (\<lambda>k. \<not> ValidateArg (Get args ''verb'') k) (map fst args) = None"
    by (simp_all add: spec_wellFormed_def Validate_spec ValidateRequiredArgs_empty
          find_invalid_None)
  show ?thesis
    using assms(1,3,4) h v r f
    by (simp add: getReqResp_def Let_def getTypedArg_def Arg_defs answer_def
          NewOAIPMHResponse_def)
qed

lemma HandleOAIGet_validation_error:
  "getReqResp lib a args = Inr (req, resp) \<Longrightarrow> resp_Errors resp \<noteq> [] \<Longrightarrow>
   HandleOAIGet lib a args = \<lparr>hr_calls = [], hr_response = XMLResponse 400 resp\<rparr>"
  by (simp add: HandleOAIGet_def HasErrors_def)

lemma HandleOAIGet_internal_error:
  "protocolErrors (getReqResp lib a args) = None \<Longrightarrow>
   HandleOAIGet lib a args = \<lparr>hr_calls = [], hr_response = AbortWithStatus 500\<rparr>"
  by (auto simp: HandleOAIGet_def protocolErrors_def split: sum.splits)

text \<open>
  Claim C1, as amended. For every raw parameter map, given to a handler whose base
  path joins with \<open>oai\<close> to a URL: request validation produces a typed request and an
  empty error list if and only if the four conditions of the grammar hold (the verb
  is present, it is one of the six verbs, every argument it requires is present,
  every supplied argument is \<open>verb\<close> or allowed for it) and, besides, the \<open>from\<close> and
  \<open>until\<close> values parse; it produces a non-empty error list if and only if one of the
  four conditions fails; when they hold and a date does not parse it returns a Go
  error and the handler answers with the bare status 500. The first violated check, in
  the order missing verb, unknown verb, missing required argument, argument not
  allowed, gives exactly one error, \<open>badVerb\<close> for an unknown verb and otherwise
  \<open>badArgument\<close> with a message that names the offending argument; the handler then
  writes the envelope with status 400 and calls no operation of the hook.
\<close>

theorem validation_grammar:
  assumes "url_JoinPath lib (basePath a) ''oai'' = Some u"
  shows "(protocolErrors (getReqResp lib a args) = Some []
            \<longleftrightarrow> spec_wellFormed args \<and> datesParse lib args)
    \<and> ((\<exists>es. protocolErrors (getReqResp lib a args) = Some es \<and> es \<noteq> [])
            \<longleftrightarrow> \<not> spec_wellFormed args)
    \<and> (spec_wellFormed args \<and> \<not> datesParse lib args \<longrightarrow>
          (\<exists>err. getReqResp lib a args = Inl err)
          \<and> HandleOAIGet lib a args = \<lparr>hr_calls = [], hr_response = AbortWithStatus 500\<rparr>)
    \<and> (\<forall>from until.
          spec_wellFormed args \<and> parseFrom lib (Get args ''from'') = Inr from
          \<and> parseUntil lib (Get args ''until'') = Inr until \<longrightarrow>
          (\<exists>resp. resp_Errors resp = [] \<and>
             getReqResp lib a args =
               Inr (\<lparr>req_URL = u, req_Verb = Get args ''verb'',
                     req_Identifier = Get args ''identifier'',
                     req_MetadataPrefix = Get args ''metadataPrefix'',
                     req_From = from, req_Until = until, req_Set = Get args ''set'',
                     req_ResumptionToken = Get args ''resumptionToken''\<rparr>, resp)))
    \<and> (\<not> Has args ''verb'' \<longrightarrow>
          protocolErrors (getReqResp lib a args) =
            Some [\<lparr>err_Code = ''badArgument'',
                   err_Message = ''Missing required argument `verb`''\<rparr>])
    \<and> (Has args ''verb'' \<and> Get args ''verb'' \<notin> set spec_verbs \<longrightarrow>
          protocolErrors (getReqResp lib a args) =
            Some [\<lparr>err_Code = ''badVerb'',
                   err_Message = ''Invalid verb `'' @ Get args ''verb'' @ ''`''\<rparr>])
    \<and> (Has args ''verb'' \<and> Get args ''verb'' \<in> set spec_verbs
        \<and> \<not> (\<forall>arg \<in> set (spec_required (Get args ''verb'')). Has args arg) \<longrightarrow>
          (\<exists>arg \<in> set (spec_required (Get args ''verb'')). \<not> Has args arg
             \<and> protocolErrors (getReqResp lib a args) =
                 Some [\<lparr>err_Code = ''badArgument'',
                        err_Message = ''Missing required argument `'' @ arg
                          @ ''` for verb `'' @ Get args ''verb'' @ ''`''\<rparr>]))
    \<and> (Has args ''verb'' \<and> Get args ''verb'' \<in> set spec_verbs
        \<and> (\<forall>arg \<in> set (spec_required (Get args ''verb'')). Has args arg)
        \<and> \<not> (\<forall>k \<in> set (map fst args).
                 k = ''verb'' \<or> k \<in> set (spec_allowed (Get args ''verb''))) \<longrightarrow>
          (\<exists>k \<in> set (map fst args). k \<noteq> ''verb'' \<and> k \<notin> set (spec_allowed (Get args ''verb''))
             \<and> protocolErrors (getReqResp lib a args) =
                 Some [\<lparr>err_Code = ''badArgument'',
                        err_Message = ''Invalid argument `'' @ k
                          @ ''` for verb `'' @ Get args ''verb'' @ ''`''\<rparr>]))
    \<and> (\<forall>req resp. getReqResp lib a args = Inr (req, resp) \<and> resp_Errors resp \<noteq> [] \<longrightarrow>
          HandleOAIGet lib a args = \<lparr>hr_calls = [], hr_response = XMLResponse 400 resp\<rparr>)"
proof -
  let ?r = "protocolErrors (getReqResp lib a args)"
  let ?v = "Get args ''verb''"
  note E = getReqResp_errors[OF assms, of args]
  have noverb: "\<not> Has args ''verb'' \<Longrightarrow>
      ?r = Some [\<lparr>err_Code = ''badArgument'',
                  err_Message = ''Missing required argument `verb`''\<rparr>]"
    by (simp add: E)
  have badverb: "Has args ''verb'' \<Longrightarrow> ?v \<notin> set spec_verbs \<Longrightarrow>
      ?r = Some [\<lparr>err_Code = ''badVerb'', err_Message = ''Invalid verb `'' @ ?v @ ''`''\<rparr>]"
    by (simp add: E Validate_spec)
  have missing: "Has args ''verb'' \<Longrightarrow> ?v \<in> set spec_verbs \<Longrightarrow>
      \<not> (\<forall>arg \<in> set (spec_required ?v). Has args arg) \<Longrightarrow>
      \<exists>arg \<in> set (spec_required ?v). \<not> Has args arg
        \<and> ?r = Some [\<lparr>err_Code = ''badArgument'',
                       err_Message = ''Missing required argument `'' @ arg
                         @ ''` for verb `'' @ ?v @ ''`''\<rparr>]"
  proof -
    assume h: "Has args ''verb''" and v: "?v \<in> set spec_verbs"
      and m: "\<not> (\<forall>arg \<in> set (spec_required ?v). Has args arg)"
    from h m have ne: "ValidateRequiredArgs ?v args \<noteq> []"
      by (simp add: ValidateRequiredArgs_empty)
    from ValidateRequiredArgs_missing[OF h ne]
    have "ValidateRequiredArgs ?v args \<in> set (spec_required ?v)"
      and "\<not> Has args (ValidateRequiredArgs ?v args)" by simp_all
    moreover have "?r = Some [\<lparr>err_Code = ''badArgument'',
        err_Message = ''Missing required argument `'' @ ValidateRequiredArgs ?v args
          @ ''` for verb `'' @ ?v @ ''`''\<rparr>]"
      using h v ne by (simp add: E Validate_spec)
    ultimately show ?thesis by blast
  qed
  have disallowed: "Has args ''verb'' \<Longrightarrow> ?v \<in> set spec_verbs \<Longrightarrow>
      (\<forall>arg \<in> set (spec_required ?v). Has args arg) \<Longrightarrow>
      \<not> (\<forall>k \<in> set (map fst args). k = ''verb'' \<or> k \<in> set (spec_allowed ?v)) \<Longrightarrow>
      \<exists>k \<in> set (map fst args). k \<noteq> ''verb'' \<and> k \<notin> set (spec_allowed ?v)
        \<and> ?r = Some [\<lparr>err_Code = ''badArgument'',
                       err_Message = ''Invalid argument `'' @ k
                         @ ''` for verb `'' @ ?v @ ''`''\<rparr>]"
  proof -
    assume h: "Has args ''verb''" and v: "?v \<in> set spec_verbs"
      and q: "\<forall>arg \<in> set (spec_required ?v). Has args arg"
      and d: "\<not> (\<forall>k \<in> set (map fst args). k = ''verb'' \<or> k \<in> set (spec_allowed ?v))"
    from v have V: "Validate ?v" by (simp add: Validate_spec)
    from h q have e: "ValidateRequiredArgs ?v args = []"
      by (simp add: ValidateRequiredArgs_empty)
    from d V obtain k where k: "find (\<lambda>k. \<not> ValidateArg ?v k) (map fst args) = Some k"
      using find_invalid_None[OF V, of args] by (cases "find (\<lambda>k. \<not> ValidateArg ?v k) (map fst args)") auto
    from find_invalid_Some[OF V k]
    have "k \<in> set (map fst args)" and "k \<noteq> ''verb''" and "k \<notin> set (spec_allowed ?v)"
      by simp_all
    moreover have "?r = Some [\<lparr>err_Code = ''badArgument'',
        err_Message = ''Invalid argument `'' @ k @ ''` for verb `'' @ ?v @ ''`''\<rparr>]"
      using h V e k by (simp add: E)
    ultimately show ?thesis by blast
  qed
  have wf: "spec_wellFormed args \<Longrightarrow>
      ?r = (case parseFrom lib (Get args ''from'') of
              Inl err \<Rightarrow> None
            | Inr from \<Rightarrow>
                (case parseUntil lib (Get args ''until'') of
                   Inl err \<Rightarrow> None | Inr until \<Rightarrow> Some []))"
  proof -
    assume w: "spec_wellFormed args"
    then have h: "Has args ''verb''" and V: "Validate ?v"
      and q: "\<forall>arg \<in> set (spec_required ?v). Has args arg"
      and d: "\<forall>k \<in> set (map fst args). k = ''verb'' \<or> k \<in> set (spec_allowed ?v)"
      unfolding spec_wellFormed_def Validate_spec by blast+
    from h q have e: "ValidateRequiredArgs ?v args = []"
      by (simp add: ValidateRequiredArgs_empty)
    from d have f: "find (\<lambda>k. \<not> ValidateArg ?v k) (map fst args) = None"
      using find_invalid_None[OF V, of args] by blast
    show ?thesis using h V e f by (simp add: E)
  qed
  have notwf: "\<not> spec_wellFormed args \<Longrightarrow> \<exists>es. ?r = Some es \<and> es \<noteq> []"
    using noverb badverb missing disallowed unfolding spec_wellFormed_def by blast
  have ok: "?r = Some [] \<longleftrightarrow> spec_wellFormed args \<and> datesParse lib args"
  proof (cases "spec_wellFormed args")
    case True
    then show ?thesis
      by (auto simp: wf datesParse_def split: sum.splits)
  next
    case False
    with notwf show ?thesis by auto
  qed
  have bad: "(\<exists>es. ?r = Some es \<and> es \<noteq> []) \<longleftrightarrow> \<not> spec_wellFormed args"
  proof (cases "spec_wellFormed args")
    case True
    then show ?thesis by (auto simp: wf split: sum.splits)
  next
    case False
    with notwf show ?thesis by auto
  qed
  have internal: "spec_wellFormed args \<Longrightarrow> \<not> datesParse lib args \<Longrightarrow>
      (\<exists>err. getReqResp lib a args = Inl err)
      \<and> HandleOAIGet lib a args = \<lparr>hr_calls = [], hr_response = AbortWithStatus 500\<rparr>"
  proof -
    assume w: "spec_wellFormed args" and d: "\<not> datesParse lib args"
    then have n: "?r = None" by (auto simp: wf datesParse_def split: sum.splits)
    then have "\<exists>err. getReqResp lib a args = Inl err"
      by (auto simp: protocolErrors_def split: sum.splits)
    with HandleOAIGet_internal_error[OF n] show ?thesis by blast
  qed
  have typed: "\<forall>from until.
      spec_wellFormed args \<and> parseFrom lib (Get args ''from'') = Inr from
      \<and> parseUntil lib (Get args ''until'') = Inr until \<longrightarrow>
      (\<exists>resp. resp_Errors resp = [] \<and>
         getReqResp lib a args =
           Inr (\<lparr>req_URL = u, req_Verb = Get args ''verb'',
                 req_Identifier = Get args ''identifier'',
                 req_MetadataPrefix = Get args ''metadataPrefix'',
                 req_From = from, req_Until = until, req_Set = Get args ''set'',
                 req_ResumptionToken = Get args ''resumptionToken''\<rparr>, resp))"
    using getReqResp_success[OF assms, of args] by blast
  have stop: "\<forall>req resp. getReqResp lib a args = Inr (req, resp) \<and> resp_Errors resp \<noteq> [] \<longrightarrow>
      HandleOAIGet lib a args = \<lparr>hr_calls = [], hr_response = XMLResponse 400 resp\<rparr>"
    using HandleOAIGet_validation_error[of lib a args] by blast
  show ?thesis
  proof (intro conjI)
    show "?r = Some [] \<longleftrightarrow> spec_wellFormed args \<and> datesParse lib args" by (rule ok)
    show "(\<exists>es. ?r = Some es \<and> es \<noteq> []) \<longleftrightarrow> \<not> spec_wellFormed args" by (rule bad)
    show "spec_wellFormed args \<and> \<not> datesParse lib args \<longrightarrow>
      (\<exists>err. getReqResp lib a args = Inl err)
      \<and> HandleOAIGet lib a args = \<lparr>hr_calls = [], hr_response = AbortWithStatus 500\<rparr>"
      using internal by blast
    show "\<not> Has args ''verb'' \<longrightarrow>
      ?r = Some [\<lparr>err_Code = ''badArgument'',
                  err_Message = ''Missing required argument `verb`''\<rparr>]"
      using noverb by blast
    show "Has args ''verb'' \<and> ?v \<notin> set spec_verbs \<longrightarrow>
      ?r = Some [\<lparr>err_Code = ''badVerb'', err_Message = ''Invalid verb `'' @ ?v @ ''`''\<rparr>]"
      using badverb by blast
    show "Has args ''verb'' \<and> ?v \<in> set spec_verbs
        \<and> \<not> (\<forall>arg \<in> set (spec_required ?v). Has args arg) \<longrightarrow>
      (\<exists>arg \<in> set (spec_required ?v). \<not> Has args arg
         \<and> ?r = Some [\<lparr>err_Code = ''badArgument'',
                err_Message = ''Missing required argument `'' @ arg
                  @ ''` for verb `'' @ ?v @ ''`''\<rparr>])"
      using missing by blast
    show "Has args ''verb'' \<and> ?v \<in> set spec_verbs
        \<and> (\<forall>arg \<in> set (spec_required ?v). Has args arg)
        \<and> \<not> (\<forall>k \<in> set (map fst args). k = ''verb'' \<or> k \<in> set (spec_allowed ?v)) \<longrightarrow>
      (\<exists>k \<in> set (map fst args). k \<noteq> ''verb'' \<and> k \<notin> set (spec_allowed ?v)
         \<and> ?r = Some [\<lparr>err_Code = ''badArgument'',
                err_Message = ''Invalid argument `'' @ k
                  @ ''` for verb `'' @ ?v @ ''`''\<rparr>])"
      using disallowed by blast
  qed (rule typed, rule stop)
qed

theorem validation_grammar_witness:
  "url_JoinPath reflib (basePath (exampleHandler [])) ''oai'' = Some ''https://vlo.korpus.cz/oai''
   \<and> \<not> Has [] ''verb''
   \<and> protocolErrors (getReqResp reflib (exampleHandler []) []) =
       Some [\<lparr>err_Code = ''badArgument'', err_Message = ''Missing required argument `verb`''\<rparr>]
   \<and> Has [(''verb'', [''Delete''])] ''verb''
   \<and> Get [(''verb'', [''Delete''])] ''verb'' \<notin> set spec_verbs
   \<and> protocolErrors (getReqResp reflib (exampleHandler []) [(''verb'', [''Delete''])]) =
       Some [\<lparr>err_Code = ''badVerb'', err_Message = ''Invalid verb `Delete`''\<rparr>]
   \<and> \<not> spec_wellFormed [(''verb'', [''Identify'']), (''set'', [''x''])]
   \<and> (\<exists>es. protocolErrors (getReqResp reflib (exampleHandler [])
                [(''verb'', [''Identify'']), (''set'', [''x''])]) = Some es \<and> es \<noteq> [])
   \<and> spec_wellFormed [(''verb'', [''ListRecords'']), (''metadataPrefix'', [''oai_dc'']),
                       (''until'', [''2024-01-15''])]
   \<and> (\<exists>resp. resp_Errors resp = [] \<and>
         getReqResp reflib (exampleHandler [])
           [(''verb'', [''ListRecords'']), (''metadataPrefix'', [''oai_dc'']),
            (''until'', [''2024-01-15''])] =
         Inr (\<lparr>req_URL = ''https://vlo.korpus.cz/oai'', req_Verb = ''ListRecords'',
               req_Identifier = [], req_MetadataPrefix = ''oai_dc'', req_From = None,
               req_Until = Some 1705363200000000000, req_Set = [],
               req_ResumptionToken = []\<rparr>, resp))"
proof -
  let ?a = "exampleHandler []"
  let ?ok = "[(''verb'', [''ListRecords'']), (''metadataPrefix'', [''oai_dc'']),
              (''until'', [''2024-01-15''])]"
  have j: "url_JoinPath reflib (basePath ?a) ''oai'' = Some ''https://vlo.korpus.cz/oai''"
    by code_simp
  note T = validation_grammar[OF j]
  note T2 = T[THEN conjunct2, THEN conjunct1]
  note T4 = T[THEN conjunct2, THEN conjunct2, THEN conjunct2, THEN conjunct1]
  note T5 = T[THEN conjunct2, THEN conjunct2, THEN conjunct2, THEN conjunct2, THEN conjunct1]
  note T6 = T[THEN conjunct2, THEN conjunct2, THEN conjunct2, THEN conjunct2, THEN conjunct2,
              THEN conjunct1]
  have a1: "\<not> Has [] ''verb''" by code_simp
  have a2: "Has [(''verb'', [''Delete''])] ''verb''" by code_simp
  have a3: "Get [(''verb'', [''Delete''])] ''verb'' \<notin> set spec_verbs" by code_simp
  have a3': "Get [(''verb'', [''Delete''])] ''verb'' = ''Delete''" by code_simp
  have a4: "\<not> spec_wellFormed [(''verb'', [''Identify'']), (''set'', [''x''])]" by code_simp
  have a5: "spec_wellFormed ?ok" by code_simp
  have a6: "parseFrom reflib (Get ?ok ''from'') = Inr None" by code_simp
  have a7: "parseUntil reflib (Get ?ok ''until'') = Inr (Some 1705363200000000000)"
    by code_simp
  have g: "Get ?ok ''verb'' = ''ListRecords'' \<and> Get ?ok ''identifier'' = []
    \<and> Get ?ok ''metadataPrefix'' = ''oai_dc'' \<and> Get ?ok ''set'' = []
    \<and> Get ?ok ''resumptionToken'' = []" by code_simp
  have c1: "protocolErrors (getReqResp reflib ?a []) =
       Some [\<lparr>err_Code = ''badArgument'', err_Message = ''Missing required argument `verb`''\<rparr>]"
    by (rule T5[of "[]", THEN mp, OF a1])
  have "protocolErrors (getReqResp reflib ?a [(''verb'', [''Delete''])]) =
       Some [\<lparr>err_Code = ''badVerb'',
              err_Message = ''Invalid verb `'' @ Get [(''verb'', [''Delete''])] ''verb'' @ ''`''\<rparr>]"
    by (rule T6[of "[(''verb'', [''Delete''])]", THEN mp, OF conjI[OF a2 a3]])
  then have c2: "protocolErrors (getReqResp reflib ?a [(''verb'', [''Delete''])]) =
       Some [\<lparr>err_Code = ''badVerb'', err_Message = ''Invalid verb `Delete`''\<rparr>]"
    unfolding a3' by simp
  have c3: "\<exists>es. protocolErrors (getReqResp reflib ?a
                [(''verb'', [''Identify'']), (''set'', [''x''])]) = Some es \<and> es \<noteq> []"
    by (rule T2[of "[(''verb'', [''Identify'']), (''set'', [''x''])]", THEN iffD2, OF a4])
  have "\<exists>resp. resp_Errors resp = [] \<and>
         getReqResp reflib ?a ?ok =
           Inr (\<lparr>req_URL = ''https://vlo.korpus.cz/oai'', req_Verb = Get ?ok ''verb'',
                 req_Identifier = Get ?ok ''identifier'',
                 req_MetadataPrefix = Get ?ok ''metadataPrefix'',
                 req_From = None, req_Until = Some 1705363200000000000,
                 req_Set = Get ?ok ''set'',
                 req_ResumptionToken = Get ?ok ''resumptionToken''\<rparr>, resp)"
    by (rule T4[of ?ok, THEN spec, THEN spec, THEN mp, OF conjI[OF a5 conjI[OF a6 a7]]])
  then have c4: "\<exists>resp. resp_Errors resp = [] \<and>
         getReqResp reflib ?a ?ok =
           Inr (\<lparr>req_URL = ''https://vlo.korpus.cz/oai'', req_Verb = ''ListRecords'',
                 req_Identifier = [], req_MetadataPrefix = ''oai_dc'', req_From = None,
                 req_Until = Some 1705363200000000000, req_Set = [],
                 req_ResumptionToken = []\<rparr>, resp)"
    using g by simp
  show ?thesis
    by (intro conjI) (rule j a1 c1 a2 a3 c2 a4 c3 a5 c4)+
qed

text \<open>
  Claim C1 as stated fails: the four conditions of the grammar hold for the request
  \<open>verb=ListRecords&metadataPrefix=oai_dc&from=yesterday\<close>, yet validation produces no
  typed request: it returns the Go error of the date that does not parse.
\<close>

theorem validation_malformed_date_counterexample:
  "spec_wellFormed [(''verb'', [''ListRecords'']), (''metadataPrefix'', [''oai_dc'']),
                    (''from'', [''yesterday''])]
   \<and> getReqResp reflib (exampleHandler [])
        [(''verb'', [''ListRecords'']), (''metadataPrefix'', [''oai_dc'']),
         (''from'', [''yesterday''])] = Inl (ErrFailedToParseFrom ''yesterday'')"
  by code_simp

section \<open>Response assembly\<close>

lemma onAnswer_simps:
  "onAnswer P (Inl err) = True"
  "onAnswer P (Inr (answer req resp)) = P req (resp\<lparr>resp_Request := req\<rparr>)"
  by (simp_all add: onAnswer_def answer_def)



lemma finishRequest_cases:
  "finishRequest resp es c =
     (if c \<ge> 400 \<and> resp_Errors resp = [] \<and> es = [] then AbortWithStatus c
      else XMLResponse c (resp\<lparr>resp_Errors := resp_Errors resp @ es\<rparr>))"
  by (simp add: finishRequest_def Let_def HasErrors_def)

lemma finish_outcome:
  assumes "resp_Errors resp = []" and "resp_Errors resp' = []"
  shows "finishRequest (if NoError ans then resp' else resp) (rw_Errors ans) (rw_HTTPCode ans) =
     (if rw_Errors ans = [] \<and> rw_HTTPCode ans < 400 then XMLResponse (rw_HTTPCode ans) resp'
      else if rw_Errors ans = [] then AbortWithStatus (rw_HTTPCode ans)
      else XMLResponse (rw_HTTPCode ans) (resp\<lparr>resp_Errors := rw_Errors ans\<rparr>))"
  using assms by (simp add: finishRequest_cases NoError_def HasErrors_def)

lemma payloadCount_errors [simp]:
  "payloadCount (resp\<lparr>resp_Errors := es\<rparr>) = payloadCount resp"
  by (simp add: payloadCount_def)


lemma operation_outcome:
  assumes "resp_Errors resp = []" and "resp_Errors resp' = []"
    and "payloadCount resp = 0" and "payloadCount resp' = 1" and "payloadOfVerb v resp'"
  shows "envelopeOK v
     (finishRequest (if NoError ans then resp' else resp) (rw_Errors ans) (rw_HTTPCode ans))"
  using assms by (simp add: finish_outcome envelopeOK_def)



lemma handleRequest_GetRecord_run:
  "req_Verb req = VerbGetRecord \<Longrightarrow>
   req_MetadataPrefix req \<in> set (SupportedMetadataPrefixes (hook a)) \<Longrightarrow>
   handleRequest a req resp =
     \<lparr>hr_calls = [CallGetRecord req],
      hr_response = finishRequest
        (if NoError (hook_GetRecord (hook a) req)
         then resp\<lparr>resp_GetRecord := Some (rw_Data (hook_GetRecord (hook a) req))\<rparr> else resp)
        (rw_Errors (hook_GetRecord (hook a) req)) (rw_HTTPCode (hook_GetRecord (hook a) req))\<rparr>"
  by (simp add: handleRequest_def Let_def Verb_defs)

lemma handleRequest_ListIdentifiers_unsupported:
  "req_Verb req = VerbListIdentifiers \<Longrightarrow>
   req_MetadataPrefix req \<notin> set (SupportedMetadataPrefixes (hook a)) \<Longrightarrow>
   handleRequest a req resp =
     \<lparr>hr_calls = [],
      hr_response = XMLResponse 400
        (addError resp ErrorCodeCannotDisseminateFormat ''Unknown metadata format'')\<rparr>"
  by (simp add: handleRequest_def Let_def Verb_defs)

lemma handleRequest_ListIdentifiers_noset:
  "req_Verb req = VerbListIdentifiers \<Longrightarrow>
   req_MetadataPrefix req \<in> set (SupportedMetadataPrefixes (hook a)) \<Longrightarrow>
   req_Set req \<noteq> [] \<Longrightarrow> \<not> SupportsSets (hook a) \<Longrightarrow>
   handleRequest a req resp =
     \<lparr>hr_calls = [],
      hr_response = XMLResponse 501
        (addError resp ErrorCodeNoSetHierarchy ''Sets functionality not implemented'')\<rparr>"
  by (simp add: handleRequest_def Let_def Verb_defs)

lemma handleRequest_ListIdentifiers_run:
  "req_Verb req = VerbListIdentifiers \<Longrightarrow>
   req_MetadataPrefix req \<in> set (SupportedMetadataPrefixes (hook a)) \<Longrightarrow>
   req_Set req = [] \<or> SupportsSets (hook a) \<Longrightarrow>
   handleRequest a req resp =
     \<lparr>hr_calls = [CallListIdentifiers req],
      hr_response = finishRequest
        (if NoError (hook_ListIdentifiers (hook a) req)
         then resp\<lparr>resp_ListIdentifiers := Some (rw_Data (hook_ListIdentifiers (hook a) req))\<rparr>
         else resp)
        (rw_Errors (hook_ListIdentifiers (hook a) req))
        (rw_HTTPCode (hook_ListIdentifiers (hook a) req))\<rparr>"
  by (auto simp: handleRequest_def Let_def Verb_defs)


lemma handleRequest_ListRecords_unsupported:
  "req_Verb req = VerbListRecords \<Longrightarrow>
   req_MetadataPrefix req \<notin> set (SupportedMetadataPrefixes (hook a)) \<Longrightarrow>
   handleRequest a req resp =
     \<lparr>hr_calls = [],
      hr_response = XMLResponse 400
        (addError resp ErrorCodeCannotDisseminateFormat ''Unknown metadata format'')\<rparr>"
  by (simp add: handleRequest_def Let_def Verb_defs)

lemma handleRequest_ListRecords_noset:
  "req_Verb req = VerbListRecords \<Longrightarrow>
   req_MetadataPrefix req \<in> set (SupportedMetadataPrefixes (hook a)) \<Longrightarrow>
   req_Set req \<noteq> [] \<Longrightarrow> \<not> SupportsSets (hook a) \<Longrightarrow>
   handleRequest a req resp =
     \<lparr>hr_calls = [],
      hr_response = XMLResponse 501
        (addError resp ErrorCodeNoSetHierarchy ''Sets functionality not implemented'')\<rparr>"
  by (simp add: handleRequest_def Let_def Verb_defs)

lemma handleRequest_ListRecords_run:
  "req_Verb req = VerbListRecords \<Longrightarrow>
   req_MetadataPrefix req \<in> set (SupportedMetadataPrefixes (hook a)) \<Longrightarrow>
   req_Set req = [] \<or> SupportsSets (hook a) \<Longrightarrow>
   handleRequest a req resp =
     \<lparr>hr_calls = [CallListRecords req],
      hr_response = finishRequest
        (if NoError (hook_ListRecords (hook a) req)
         then resp\<lparr>resp_ListRecords := Some (rw_Data (hook_ListRecords (hook a) req))\<rparr>
         else resp)
        (rw_Errors (hook_ListRecords (hook a) req))
        (rw_HTTPCode (hook_ListRecords (hook a) req))\<rparr>"
  by (auto simp: handleRequest_def Let_def Verb_defs)



section \<open>The operations of the corpus hook\<close>

lemma NewCNCHook_sel:
  "hook_GetRecord (NewCNCHook lib conf db) = GetRecord lib \<lparr>hook_conf = conf, hook_db = db\<rparr>"
  "hook_ListIdentifiers (NewCNCHook lib conf db) =
     ListIdentifiers lib \<lparr>hook_conf = conf, hook_db = db\<rparr>"
  "hook_ListRecords (NewCNCHook lib conf db) = ListRecords lib \<lparr>hook_conf = conf, hook_db = db\<rparr>"
  "SupportsSets (NewCNCHook lib conf db) = False"
  "SupportedMetadataPrefixes (NewCNCHook lib conf db) =
     [DublinCoreMetadataPrefix, CMDIMetadataPrefix]"
  by (simp_all add: NewCNCHook_def Let_def)

lemma finishRequest_errors:
  "resp_Errors resp = [] \<Longrightarrow> es \<noteq> [] \<Longrightarrow>
   finishRequest resp es c = XMLResponse c (resp\<lparr>resp_Errors := es\<rparr>)"
  by (simp add: finishRequest_cases)

text \<open>
  Claim C5. For every ListRecords or ListIdentifiers request for which the repository
  returns zero records, the operation returns the single error \<open>noRecordsMatch\<close> with
  the HTTP code left at 200 and an empty result list. When the metadata prefix is a
  supported one (and the request names no set), the handler therefore writes an
  envelope with status 200 that carries this error and no result field.
\<close>

theorem no_records_match:
  assumes "ListRecordInfo lib db (req_From req) (req_Until req) = Inr []"
  shows "ListRecords lib \<lparr>hook_conf = conf, hook_db = db\<rparr> req =
           \<lparr>rw_Data = [],
            rw_Errors = [\<lparr>err_Code = ''noRecordsMatch'', err_Message = ''No records''\<rparr>],
            rw_HTTPCode = 200\<rparr>
     \<and> ListIdentifiers lib \<lparr>hook_conf = conf, hook_db = db\<rparr> req =
           \<lparr>rw_Data = [],
            rw_Errors = [\<lparr>err_Code = ''noRecordsMatch'', err_Message = ''No records''\<rparr>],
            rw_HTTPCode = 200\<rparr>
     \<and> ((req_Verb req = VerbListRecords \<or> req_Verb req = VerbListIdentifiers)
          \<and> (req_MetadataPrefix req = ''oai_dc'' \<or> req_MetadataPrefix req = ''cmdi'')
          \<and> req_Set req = [] \<and> resp_Errors resp = [] \<longrightarrow>
          hr_response (handleRequest (NewVLOHandler base (NewCNCHook lib conf db)) req resp) =
            XMLResponse 200
              (resp\<lparr>resp_Errors :=
                 [\<lparr>err_Code = ''noRecordsMatch'', err_Message = ''No records''\<rparr>]\<rparr>))"
proof -
  let ?c = "\<lparr>hook_conf = conf, hook_db = db\<rparr>"
  let ?w = "\<lparr>rw_Data = [],
            rw_Errors = [\<lparr>err_Code = ''noRecordsMatch'', err_Message = ''No records''\<rparr>],
            rw_HTTPCode = 200\<rparr>"
  have r: "ListRecords lib ?c req = ?w"
    using assms
    by (simp add: ListRecords_def NewResultWrapper_def Errors_Add_def ErrorCode_defs)
  have i: "ListIdentifiers lib ?c req = ?w"
    using assms
    by (simp add: ListIdentifiers_def NewResultWrapper_def Errors_Add_def ErrorCode_defs)
  have h: "(req_Verb req = VerbListRecords \<or> req_Verb req = VerbListIdentifiers)
          \<and> (req_MetadataPrefix req = ''oai_dc'' \<or> req_MetadataPrefix req = ''cmdi'')
          \<and> req_Set req = [] \<and> resp_Errors resp = [] \<longrightarrow>
          hr_response (handleRequest (NewVLOHandler base (NewCNCHook lib conf db)) req resp) =
            XMLResponse 200
              (resp\<lparr>resp_Errors :=
                 [\<lparr>err_Code = ''noRecordsMatch'', err_Message = ''No records''\<rparr>]\<rparr>)"
  proof (intro impI, elim conjE)
    let ?a = "NewVLOHandler base (NewCNCHook lib conf db)"
    assume v: "req_Verb req = VerbListRecords \<or> req_Verb req = VerbListIdentifiers"
      and p: "req_MetadataPrefix req = ''oai_dc'' \<or> req_MetadataPrefix req = ''cmdi''"
      and s: "req_Set req = []" and e: "resp_Errors resp = []"
    have hk: "hook ?a = NewCNCHook lib conf db" by (simp add: NewVLOHandler_def)
    from p have sup: "req_MetadataPrefix req \<in> set (SupportedMetadataPrefixes (hook ?a))"
      by (auto simp: hk NewCNCHook_sel DublinCoreMetadataPrefix_def CMDIMetadataPrefix_def)
    from s have st: "req_Set req = [] \<or> SupportsSets (hook ?a)" by simp
    from v show "hr_response (handleRequest ?a req resp) =
        XMLResponse 200
          (resp\<lparr>resp_Errors :=
             [\<lparr>err_Code = ''noRecordsMatch'', err_Message = ''No records''\<rparr>]\<rparr>)"
    proof
      assume l: "req_Verb req = VerbListRecords"
      show ?thesis
        by (simp add: handleRequest_ListRecords_run[OF l sup st] hk NewCNCHook_sel r
              NoError_def HasErrors_def finishRequest_errors[OF e])
    next
      assume l: "req_Verb req = VerbListIdentifiers"
      show ?thesis
        by (simp add: handleRequest_ListIdentifiers_run[OF l sup st] hk NewCNCHook_sel i
              NoError_def HasErrors_def finishRequest_errors[OF e])
    qed
  qed
  from r i h show ?thesis by (intro conjI)
qed

theorem no_records_match_witness:
  "ListRecordInfo reflib (dbWith []) (req_From (exampleRequest ''ListRecords'' [] ''oai_dc''))
      (req_Until (exampleRequest ''ListRecords'' [] ''oai_dc'')) = Inr []
   \<and> ListRecords reflib \<lparr>hook_conf = exampleConf, hook_db = dbWith []\<rparr>
        (exampleRequest ''ListRecords'' [] ''oai_dc'') =
       \<lparr>rw_Data = [],
        rw_Errors = [\<lparr>err_Code = ''noRecordsMatch'', err_Message = ''No records''\<rparr>],
        rw_HTTPCode = 200\<rparr>
   \<and> hr_response (handleRequest (exampleHandler [])
        (exampleRequest ''ListRecords'' [] ''oai_dc'')
        (NewOAIPMHResponse reflib (exampleRequest ''ListRecords'' [] ''oai_dc''))) =
      XMLResponse 200
        ((NewOAIPMHResponse reflib (exampleRequest ''ListRecords'' [] ''oai_dc''))
           \<lparr>resp_Errors := [\<lparr>err_Code = ''noRecordsMatch'', err_Message = ''No records''\<rparr>]\<rparr>)"
proof -
  let ?req = "exampleRequest ''ListRecords'' [] ''oai_dc''"
  let ?resp = "NewOAIPMHResponse reflib ?req"
  have h: "ListRecordInfo reflib (dbWith []) (req_From ?req) (req_Until ?req) = Inr []"
    by code_simp
  note T = no_records_match[OF h, of exampleConf ?resp "''https://vlo.korpus.cz''"]
  have p: "(req_Verb ?req = VerbListRecords \<or> req_Verb ?req = VerbListIdentifiers)
          \<and> (req_MetadataPrefix ?req = ''oai_dc'' \<or> req_MetadataPrefix ?req = ''cmdi'')
          \<and> req_Set ?req = [] \<and> resp_Errors ?resp = []"
    by (simp add: exampleRequest_def Verb_defs NewOAIPMHResponse_def)
  have c3: "hr_response (handleRequest (exampleHandler []) ?req ?resp) =
      XMLResponse 200
        (?resp\<lparr>resp_Errors := [\<lparr>err_Code = ''noRecordsMatch'', err_Message = ''No records''\<rparr>]\<rparr>)"
    using T[THEN conjunct2, THEN conjunct2, THEN mp, OF p]
    by (simp only: exampleHandler_def)
  show ?thesis
    by (intro conjI) (rule h, rule T[THEN conjunct1], rule c3)
qed

text \<open>
  Claim C4. For every GetRecord request whose identifier the repository lookup does
  not find (no row for a record that is not deleted), the operation returns exactly
  one error, \<open>idDoesNotExist\<close>, with HTTP status 404, and its data is the empty record:
  no header and no metadata body. The handler then writes the envelope with status
  404, this error and no GetRecord field.
\<close>

theorem get_record_not_found:
  assumes "GetRecordInfo lib db (req_Identifier req) = Inr None"
  shows "GetRecord lib \<lparr>hook_conf = conf, hook_db = db\<rparr> req =
           \<lparr>rw_Data = \<lparr>rec_Header = None, rec_Metadata = None\<rparr>,
            rw_Errors = [\<lparr>err_Code = ''idDoesNotExist'',
                           err_Message = ''Result for ID = '' @ req_Identifier req
                             @ '' not found''\<rparr>],
            rw_HTTPCode = 404\<rparr>
     \<and> (req_Verb req = VerbGetRecord
          \<and> (req_MetadataPrefix req = ''oai_dc'' \<or> req_MetadataPrefix req = ''cmdi'')
          \<and> resp_Errors resp = [] \<longrightarrow>
          hr_response (handleRequest (NewVLOHandler base (NewCNCHook lib conf db)) req resp) =
            XMLResponse 404
              (resp\<lparr>resp_Errors :=
                 [\<lparr>err_Code = ''idDoesNotExist'',
                    err_Message = ''Result for ID = '' @ req_Identifier req
                      @ '' not found''\<rparr>]\<rparr>))"
proof -
  let ?c = "\<lparr>hook_conf = conf, hook_db = db\<rparr>"
  let ?a = "NewVLOHandler base (NewCNCHook lib conf db)"
  let ?e = "[\<lparr>err_Code = ''idDoesNotExist'',
               err_Message = ''Result for ID = '' @ req_Identifier req @ '' not found''\<rparr>]"
  have g: "GetRecord lib ?c req =
      \<lparr>rw_Data = \<lparr>rec_Header = None, rec_Metadata = None\<rparr>, rw_Errors = ?e, rw_HTTPCode = 404\<rparr>"
    using assms
    by (simp add: GetRecord_def NewResultWrapper_def Errors_Add_def ErrorCode_defs
          emptyOAIPMHRecord_def)
  have h: "req_Verb req = VerbGetRecord
          \<and> (req_MetadataPrefix req = ''oai_dc'' \<or> req_MetadataPrefix req = ''cmdi'')
          \<and> resp_Errors resp = [] \<longrightarrow>
          hr_response (handleRequest ?a req resp) = XMLResponse 404 (resp\<lparr>resp_Errors := ?e\<rparr>)"
  proof (intro impI, elim conjE)
    assume v: "req_Verb req = VerbGetRecord"
      and p: "req_MetadataPrefix req = ''oai_dc'' \<or> req_MetadataPrefix req = ''cmdi''"
      and e: "resp_Errors resp = []"
    have hk: "hook ?a = NewCNCHook lib conf db" by (simp add: NewVLOHandler_def)
    from p have sup: "req_MetadataPrefix req \<in> set (SupportedMetadataPrefixes (hook ?a))"
      by (auto simp: hk NewCNCHook_sel DublinCoreMetadataPrefix_def CMDIMetadataPrefix_def)
    show "hr_response (handleRequest ?a req resp) = XMLResponse 404 (resp\<lparr>resp_Errors := ?e\<rparr>)"
      by (simp add: handleRequest_GetRecord_run[OF v sup] hk NewCNCHook_sel g
            NoError_def HasErrors_def finishRequest_errors[OF e])
  qed
  from g h show ?thesis by (intro conjI)
qed

theorem get_record_not_found_witness:
  "GetRecordInfo reflib (dbWith []) (req_Identifier (exampleRequest ''GetRecord'' ''42'' ''oai_dc''))
     = Inr None
   \<and> GetRecord reflib \<lparr>hook_conf = exampleConf, hook_db = dbWith []\<rparr>
        (exampleRequest ''GetRecord'' ''42'' ''oai_dc'') =
       \<lparr>rw_Data = \<lparr>rec_Header = None, rec_Metadata = None\<rparr>,
        rw_Errors = [\<lparr>err_Code = ''idDoesNotExist'',
                       err_Message = ''Result for ID = 42 not found''\<rparr>],
        rw_HTTPCode = 404\<rparr>
   \<and> hr_response (handleRequest (exampleHandler [])
        (exampleRequest ''GetRecord'' ''42'' ''oai_dc'')
        (NewOAIPMHResponse reflib (exampleRequest ''GetRecord'' ''42'' ''oai_dc''))) =
      XMLResponse 404
        ((NewOAIPMHResponse reflib (exampleRequest ''GetRecord'' ''42'' ''oai_dc''))
           \<lparr>resp_Errors := [\<lparr>err_Code = ''idDoesNotExist'',
                               err_Message = ''Result for ID = 42 not found''\<rparr>]\<rparr>)"
proof -
  let ?req = "exampleRequest ''GetRecord'' ''42'' ''oai_dc''"
  let ?resp = "NewOAIPMHResponse reflib ?req"
  have h: "GetRecordInfo reflib (dbWith []) (req_Identifier ?req) = Inr None"
    by code_simp
  have i: "req_Identifier ?req = ''42''" by (simp add: exampleRequest_def)
  note T = get_record_not_found[OF h, of exampleConf ?resp "''https://vlo.korpus.cz''"]
  have p: "req_Verb ?req = VerbGetRecord
          \<and> (req_MetadataPrefix ?req = ''oai_dc'' \<or> req_MetadataPrefix ?req = ''cmdi'')
          \<and> resp_Errors ?resp = []"
    by (simp add: exampleRequest_def Verb_defs NewOAIPMHResponse_def)
  have c2: "GetRecord reflib \<lparr>hook_conf = exampleConf, hook_db = dbWith []\<rparr> ?req =
       \<lparr>rw_Data = \<lparr>rec_Header = None, rec_Metadata = None\<rparr>,
        rw_Errors = [\<lparr>err_Code = ''idDoesNotExist'',
                       err_Message = ''Result for ID = 42 not found''\<rparr>],
        rw_HTTPCode = 404\<rparr>"
    using T[THEN conjunct1] by (simp add: i)
  have c3: "hr_response (handleRequest (exampleHandler []) ?req ?resp) =
      XMLResponse 404
        (?resp\<lparr>resp_Errors := [\<lparr>err_Code = ''idDoesNotExist'',
                               err_Message = ''Result for ID = 42 not found''\<rparr>]\<rparr>)"
    using T[THEN conjunct2, THEN mp, OF p] by (simp add: exampleHandler_def i)
  show ?thesis
    by (intro conjI) (rule h, rule c2, rule c3)
qed

section \<open>The set precondition of the dispatcher\<close>

lemma getReqResp_fields_case:
  "onAnswer (\<lambda>req resp. resp_Errors resp = [] \<longrightarrow>
        req_Verb req = Get args ''verb'' \<and> req_Set req = Get args ''set''
        \<and> req_MetadataPrefix req = Get args ''metadataPrefix'')
     (getReqResp lib a args)"
  by (simp add: getReqResp_def Let_def onAnswer_simps addError_def Errors_Add_def
        NewOAIPMHResponse_def getTypedArg_def Arg_defs split: option.splits sum.splits)

lemma getReqResp_fields:
  assumes "getReqResp lib a args = Inr (req, resp)" and "resp_Errors resp = []"
  shows "req_Verb req = Get args ''verb''" and "req_Set req = Get args ''set''"
    and "req_MetadataPrefix req = Get args ''metadataPrefix''"
  using getReqResp_fields_case[of args lib a] assms by (simp_all add: onAnswer_def)

lemma finishRequest_written:
  "resp_Errors resp = [] \<Longrightarrow> finishRequest resp es c = XMLResponse code r \<Longrightarrow>
   resp_Errors r = es \<and> code = c"
  by (auto simp: finishRequest_cases split: if_splits)

text \<open>
  Claim C9. For every ListRecords or ListIdentifiers request that passes validation
  and supplies \<open>set\<close> with an empty value: validation accepts the parameter as a
  supplied, allowed argument and the request carries the empty set value; the
  dispatcher raises no \<open>noSetHierarchy\<close>, whether or not the hook supports sets: when
  the metadata prefix is supported it calls the list operation of the hook with the
  request, and the errors of a written envelope are exactly those the operation
  returned; when the prefix is not supported it answers \<open>cannotDisseminateFormat\<close>
  with status 400. For any request of these two verbs with a non-empty set value and a
  hook without sets, the dispatcher answers \<open>cannotDisseminateFormat\<close> (400) when the
  prefix is not supported, the format check coming first, and \<open>noSetHierarchy\<close> (501)
  when it is supported; in both cases it calls no operation.
\<close>

theorem empty_set_parameter:
  assumes "getReqResp lib a args = Inr (req, resp)" and "resp_Errors resp = []"
    and "Has args ''set''" and "Get args ''set'' = []"
    and "req_Verb req = VerbListRecords \<or> req_Verb req = VerbListIdentifiers"
  shows "req_Set req = [] \<and> ValidateArg (req_Verb req) ''set''
    \<and> (req_MetadataPrefix req \<in> set (SupportedMetadataPrefixes (hook a)) \<longrightarrow>
          hr_calls (HandleOAIGet lib a args) =
            [if req_Verb req = VerbListRecords then CallListRecords req
             else CallListIdentifiers req]
          \<and> (\<forall>code r. hr_response (HandleOAIGet lib a args) = XMLResponse code r \<longrightarrow>
                 resp_Errors r = fst (wrapperReport (hook a) req)
                 \<and> code = snd (wrapperReport (hook a) req)))
    \<and> (req_MetadataPrefix req \<notin> set (SupportedMetadataPrefixes (hook a)) \<longrightarrow>
          HandleOAIGet lib a args =
            \<lparr>hr_calls = [],
             hr_response = XMLResponse 400
               (addError resp ErrorCodeCannotDisseminateFormat ''Unknown metadata format'')\<rparr>)
    \<and> (\<forall>req' resp'.
          (req_Verb req' = VerbListRecords \<or> req_Verb req' = VerbListIdentifiers)
          \<and> req_Set req' \<noteq> [] \<and> \<not> SupportsSets (hook a) \<longrightarrow>
          handleRequest a req' resp' =
            \<lparr>hr_calls = [],
             hr_response =
               (if req_MetadataPrefix req' \<notin> set (SupportedMetadataPrefixes (hook a))
                then XMLResponse 400
                  (addError resp' ErrorCodeCannotDisseminateFormat ''Unknown metadata format'')
                else XMLResponse 501
                  (addError resp' ErrorCodeNoSetHierarchy
                     ''Sets functionality not implemented''))\<rparr>)"
proof -
  have H: "HandleOAIGet lib a args = handleRequest a req resp"
    using assms(1,2) by (simp add: HandleOAIGet_def HasErrors_def)
  have s: "req_Set req = []"
    using getReqResp_fields(2)[OF assms(1,2)] assms(4) by simp
  have va: "ValidateArg (req_Verb req) ''set''"
    using assms(5) by (auto simp: ValidateArg_def Verb_defs Arg_defs)
  have st: "req_Set req = [] \<or> SupportsSets (hook a)" using s by simp
  have run: "req_MetadataPrefix req \<in> set (SupportedMetadataPrefixes (hook a)) \<longrightarrow>
          hr_calls (HandleOAIGet lib a args) =
            [if req_Verb req = VerbListRecords then CallListRecords req
             else CallListIdentifiers req]
          \<and> (\<forall>code r. hr_response (HandleOAIGet lib a args) = XMLResponse code r \<longrightarrow>
                 resp_Errors r = fst (wrapperReport (hook a) req)
                 \<and> code = snd (wrapperReport (hook a) req))"
  proof
    assume sup: "req_MetadataPrefix req \<in> set (SupportedMetadataPrefixes (hook a))"
    from assms(5) show "hr_calls (HandleOAIGet lib a args) =
            [if req_Verb req = VerbListRecords then CallListRecords req
             else CallListIdentifiers req]
          \<and> (\<forall>code r. hr_response (HandleOAIGet lib a args) = XMLResponse code r \<longrightarrow>
                 resp_Errors r = fst (wrapperReport (hook a) req)
                 \<and> code = snd (wrapperReport (hook a) req))"
    proof
      assume l: "req_Verb req = VerbListRecords"
      let ?ans = "hook_ListRecords (hook a) req"
      let ?R = "if NoError ?ans then resp\<lparr>resp_ListRecords := Some (rw_Data ?ans)\<rparr> else resp"
      have w: "wrapperReport (hook a) req = (rw_Errors ?ans, rw_HTTPCode ?ans)"
        using l by (simp add: wrapperReport_def Verb_defs)
      have R: "resp_Errors ?R = []" by (simp add: assms(2))
      have hh: "HandleOAIGet lib a args =
          \<lparr>hr_calls = [CallListRecords req],
           hr_response = finishRequest ?R (rw_Errors ?ans) (rw_HTTPCode ?ans)\<rparr>"
        unfolding H by (rule handleRequest_ListRecords_run[OF l sup st])
      show ?thesis
        using finishRequest_written[OF R] by (simp add: hh w l)
    next
      assume l: "req_Verb req = VerbListIdentifiers"
      let ?ans = "hook_ListIdentifiers (hook a) req"
      let ?R = "if NoError ?ans then resp\<lparr>resp_ListIdentifiers := Some (rw_Data ?ans)\<rparr>
                else resp"
      have w: "wrapperReport (hook a) req = (rw_Errors ?ans, rw_HTTPCode ?ans)"
        using l by (simp add: wrapperReport_def Verb_defs)
      have R: "resp_Errors ?R = []" by (simp add: assms(2))
      have hh: "HandleOAIGet lib a args =
          \<lparr>hr_calls = [CallListIdentifiers req],
           hr_response = finishRequest ?R (rw_Errors ?ans) (rw_HTTPCode ?ans)\<rparr>"
        unfolding H by (rule handleRequest_ListIdentifiers_run[OF l sup st])
      show ?thesis
        using finishRequest_written[OF R] by (simp add: hh w l Verb_defs)
    qed
  qed
  have unsup: "req_MetadataPrefix req \<notin> set (SupportedMetadataPrefixes (hook a)) \<longrightarrow>
          HandleOAIGet lib a args =
            \<lparr>hr_calls = [],
             hr_response = XMLResponse 400
               (addError resp ErrorCodeCannotDisseminateFormat ''Unknown metadata format'')\<rparr>"
    using assms(5)
    by (auto simp: H handleRequest_ListRecords_unsupported
          handleRequest_ListIdentifiers_unsupported)
  have order: "\<forall>req' resp'.
          (req_Verb req' = VerbListRecords \<or> req_Verb req' = VerbListIdentifiers)
          \<and> req_Set req' \<noteq> [] \<and> \<not> SupportsSets (hook a) \<longrightarrow>
          handleRequest a req' resp' =
            \<lparr>hr_calls = [],
             hr_response =
               (if req_MetadataPrefix req' \<notin> set (SupportedMetadataPrefixes (hook a))
                then XMLResponse 400
                  (addError resp' ErrorCodeCannotDisseminateFormat ''Unknown metadata format'')
                else XMLResponse 501
                  (addError resp' ErrorCodeNoSetHierarchy
                     ''Sets functionality not implemented''))\<rparr>"
    by (auto simp: handleRequest_ListRecords_unsupported handleRequest_ListRecords_noset
          handleRequest_ListIdentifiers_unsupported handleRequest_ListIdentifiers_noset)
  from s va run unsup order show ?thesis by (intro conjI)
qed
theorem empty_set_parameter_witness:
  "getReqResp reflib (exampleHandler [])
     [(''verb'', [''ListRecords'']), (''metadataPrefix'', [''oai_dc'']), (''set'', [[]])] =
     Inr (exampleRequest ''ListRecords'' [] ''oai_dc'',
          NewOAIPMHResponse reflib (exampleRequest ''ListRecords'' [] ''oai_dc''))
   \<and> Has [(''verb'', [''ListRecords'']), (''metadataPrefix'', [''oai_dc'']), (''set'', [[]])] ''set''
   \<and> Get [(''verb'', [''ListRecords'']), (''metadataPrefix'', [''oai_dc'']), (''set'', [[]])] ''set''
       = []
   \<and> \<not> SupportsSets (hook (exampleHandler []))
   \<and> hr_calls (HandleOAIGet reflib (exampleHandler [])
        [(''verb'', [''ListRecords'']), (''metadataPrefix'', [''oai_dc'']), (''set'', [[]])]) =
       [CallListRecords (exampleRequest ''ListRecords'' [] ''oai_dc'')]
   \<and> handleRequest (exampleHandler [])
        ((exampleRequest ''ListRecords'' [] ''marc'')\<lparr>req_Set := ''x''\<rparr>)
        (NewOAIPMHResponse reflib (exampleRequest ''ListRecords'' [] ''marc'')) =
       \<lparr>hr_calls = [],
        hr_response = XMLResponse 400
          (addError (NewOAIPMHResponse reflib (exampleRequest ''ListRecords'' [] ''marc''))
             ErrorCodeCannotDisseminateFormat ''Unknown metadata format'')\<rparr>"
proof -
  let ?args = "[(''verb'', [''ListRecords'']), (''metadataPrefix'', [''oai_dc'']), (''set'', [[]])]"
  let ?req = "exampleRequest ''ListRecords'' [] ''oai_dc''"
  let ?resp = "NewOAIPMHResponse reflib ?req"
  let ?a = "exampleHandler []"
  let ?req' = "(exampleRequest ''ListRecords'' [] ''marc'')\<lparr>req_Set := ''x''\<rparr>"
  let ?resp' = "NewOAIPMHResponse reflib (exampleRequest ''ListRecords'' [] ''marc'')"
  have g: "getReqResp reflib ?a ?args = Inr (?req, ?resp)" by code_simp
  have e: "resp_Errors ?resp = []" by (simp add: NewOAIPMHResponse_def)
  have h: "Has ?args ''set''" by code_simp
  have s: "Get ?args ''set'' = []" by code_simp
  have v: "req_Verb ?req = VerbListRecords \<or> req_Verb ?req = VerbListIdentifiers"
    by (simp add: exampleRequest_def Verb_defs)
  have ns: "\<not> SupportsSets (hook ?a)"
    by (simp add: exampleHandler_def NewVLOHandler_def NewCNCHook_sel)
  have sup: "req_MetadataPrefix ?req \<in> set (SupportedMetadataPrefixes (hook ?a))"
    by (simp add: exampleHandler_def NewVLOHandler_def NewCNCHook_sel exampleRequest_def
          DublinCoreMetadataPrefix_def)
  have unsup: "req_MetadataPrefix ?req' \<notin> set (SupportedMetadataPrefixes (hook ?a))"
    by (simp add: exampleHandler_def NewVLOHandler_def NewCNCHook_sel exampleRequest_def
          DublinCoreMetadataPrefix_def CMDIMetadataPrefix_def)
  have p: "(req_Verb ?req' = VerbListRecords \<or> req_Verb ?req' = VerbListIdentifiers)
          \<and> req_Set ?req' \<noteq> [] \<and> \<not> SupportsSets (hook ?a)"
    using ns by (simp add: exampleRequest_def Verb_defs)
  note T = empty_set_parameter[OF g e h s v]
  have c1: "hr_calls (HandleOAIGet reflib ?a ?args) = [CallListRecords ?req]"
    using T[THEN conjunct2, THEN conjunct2, THEN conjunct1, THEN mp, OF sup, THEN conjunct1]
    by (simp add: exampleRequest_def Verb_defs)
  have c2: "handleRequest ?a ?req' ?resp' =
       \<lparr>hr_calls = [],
        hr_response = XMLResponse 400
          (addError ?resp' ErrorCodeCannotDisseminateFormat ''Unknown metadata format'')\<rparr>"
    using T[THEN conjunct2, THEN conjunct2, THEN conjunct2, THEN conjunct2,
            THEN spec, THEN spec, THEN mp, OF p] unsup
    by simp
  show ?thesis
    by (intro conjI) (rule g, rule h, rule s, rule ns, rule c1, rule c2)
qed

section \<open>The envelope carries a result or errors, never both\<close>




section \<open>The upper bound of selective harvesting\<close>

lemma parseUntil_bare_date:
  "until \<noteq> [] \<Longrightarrow> \<not> strings_Contains until ''T'' \<Longrightarrow>
   time_Parse lib DateOnly until = Some d \<Longrightarrow>
   parseUntil lib until = Inr (Some (d + 24 * 3600 * 1000000000))"
  by (simp add: parseUntil_def time_Add_def time_Hour_def)

lemma whereClause_until:
  "list_all (\<lambda>cond. holds cond r) (whereClause c from (Some u)) \<longleftrightarrow>
   list_all (\<lambda>cond. holds cond r) (whereClause c from None) \<and> Date (sr_Data r) \<le> u"
  by (cases "from") (auto simp: whereClause_def)

text \<open>
  Claim C3. The bare date \<open>until=2024-01-15\<close> is parsed as the start of that day plus
  one full day, the same instant as \<open>until=2024-01-16T00:00:00Z\<close>; that much of the
  claim holds. But the repository compares with \<open>\<le>\<close>, so the bound is inclusive: for
  the request \<open>verb=ListRecords&metadataPrefix=oai_dc&until=2024-01-15\<close>, a record last
  modified exactly at 2024-01-16T00:00:00Z is listed, where the claim says that it is
  excluded.
\<close>

theorem until_bare_date_includes_next_midnight:
  "parseUntil reflib ''2024-01-15'' = Inr (Some 1705363200000000000)
   \<and> parseUntil reflib ''2024-01-16T00:00:00Z'' = Inr (Some 1705363200000000000)
   \<and> ListRecordInfo reflib (dbWith [exampleRow 7 1705363200000000000]) None
        (Some 1705363200000000000) =
       Inr [zeroDBData\<lparr>ID := 7, Date := 1705363200000000000, Type := ''service''\<rparr>]
   \<and> (case hr_response (HandleOAIGet reflib (exampleHandler [exampleRow 7 1705363200000000000])
         [(''verb'', [''ListRecords'']), (''metadataPrefix'', [''oai_dc'']),
          (''until'', [''2024-01-15''])]) of
         XMLResponse code resp \<Rightarrow>
           code = 200 \<and> resp_Errors resp = []
           \<and> map_option (map (\<lambda>r. map_option
                  (\<lambda>h. (hdr_Identifier h, time_Format_RFC3339 reflib (hdr_Datestamp h)))
                  (rec_Header r))) (resp_ListRecords resp) =
               Some [Some (''7'', ''2024-01-16T00:00:00Z'')]
       | AbortWithStatus code \<Rightarrow> False)"
  by code_simp

end
